theory Spec2Isabelle
  imports Complex_Main "HOL-Library.Word" "HOL-Library.Char_ord" "HOL-Library.List_Lexorder"
begin

section \<open>JavaScript values shared by the three services\<close>

text \<open>
  Strings are ASCII character lists; \<open>toLowerCase\<close> and \<open>toUpperCase\<close> change the 26
  letters and leave every other character as it is.  The string order of List\_Lexorder
  over Char\_ord is JavaScript's \<open><\<close> on strings: lexicographic by character code, a
  proper prefix first.  Every \<open>throw\<close> of the source and of the libraries it calls is a
  value of \<open>error\<close>; a function that can throw returns \<open>error + 'a\<close>.
\<close>

datatype error =
    TypeError
  | AxiosError string
  | RpcError string
  | InvalidAddress
  | BadAddressChecksum
  | InvalidBigNumber
  | ValueOutOfBounds
  | NumericOverflow
  | NegativePower
  | DivisionByZero
  | InvalidDecimalSize

definition toLowerChar :: "char \<Rightarrow> char" where
  "toLowerChar c =
     (let n = (of_char c :: nat) in if 65 \<le> n \<and> n \<le> 90 then char_of (n + 32) else c)"

definition toUpperChar :: "char \<Rightarrow> char" where
  "toUpperChar c =
     (let n = (of_char c :: nat) in if 97 \<le> n \<and> n \<le> 122 then char_of (n - 32) else c)"

definition toLowerCase :: "string \<Rightarrow> string" where
  "toLowerCase s = map toLowerChar s"

definition toUpperCase :: "string \<Rightarrow> string" where
  "toUpperCase s = map toUpperChar s"

text \<open>\<open>Array.prototype.join\<close> on an array of strings.\<close>

fun join :: "string \<Rightarrow> string list \<Rightarrow> string" where
  "join sep [] = []"
| "join sep [x] = x"
| "join sep (x # y # ys) = x @ sep @ join sep (y # ys)"

section \<open>Price oracle (class PriceOracle, utils/priceOracle.js)\<close>

text \<open>
  One entry of the upstream answer and the record \<open>fetchPriceFromCoinGecko\<close> builds
  from \<open>response.data[coinId]\<close>.  A field that the value read does not have is
  \<open>undefined\<close>, here \<open>None\<close>; numbers are only passed through.
\<close>

record coin_data =
  usd :: "rat option"
  usd_24h_change :: "rat option"
  usd_market_cap :: "rat option"
  usd_24h_vol :: "rat option"

record price_record =
  price_usd :: "rat option"
  change24h :: "rat option"
  marketCap :: "rat option"
  volume24h :: "rat option"

text \<open>
  \<open>response.data\<close> is an object parsed from JSON: its own properties are the entries the
  upstream sent, and it inherits the members of \<open>Object.prototype\<close>.  So
  \<open>response.data[k]\<close> is the entry \<open>k\<close> when the upstream sent one; otherwise it is
  \<open>Object.prototype\<close> itself for \<open>k = "__proto__"\<close>, the inherited function for the eleven
  other member names, and \<open>undefined\<close> for every other \<open>k\<close>.
\<close>

datatype js_value = Undefined | Entry coin_data | ObjectPrototype | Builtin string

definition objectPrototypeKeys :: "string list" where
  "objectPrototypeKeys =
     [''constructor'', ''__defineGetter__'', ''__defineSetter__'', ''hasOwnProperty'',
      ''__lookupGetter__'', ''__lookupSetter__'', ''isPrototypeOf'',
      ''propertyIsEnumerable'', ''toString'', ''valueOf'', ''toLocaleString'']"

definition getProperty :: "(string \<rightharpoonup> coin_data) \<Rightarrow> string \<Rightarrow> js_value" where
  "getProperty obj k =
     (case obj k of
        Some d \<Rightarrow> Entry d
      | None \<Rightarrow>
          if k = ''__proto__'' then ObjectPrototype
          else if k \<in> set objectPrototypeKeys then Builtin k
          else Undefined)"

text \<open>
  An object built by the code (\<open>const prices = {}\<close>): its own properties, and its
  prototype.  The assignment \<open>obj[k] = v\<close> adds or overwrites the own property \<open>k\<close>,
  except for \<open>k = "__proto__"\<close>: that name is a setter inherited from
  \<open>Object.prototype\<close>, which makes \<open>v\<close> the prototype when \<open>v\<close> is an object and does
  nothing otherwise; no own property is created.
\<close>

record js_object =
  properties :: "string \<rightharpoonup> js_value"
  prototype :: js_value

definition emptyObject :: js_object where
  "emptyObject = \<lparr>properties = Map.empty, prototype = ObjectPrototype\<rparr>"

definition setProperty :: "js_object \<Rightarrow> string \<Rightarrow> js_value \<Rightarrow> js_object" where
  "setProperty obj k v =
     (if k = ''__proto__''
      then (if v = Undefined then obj else obj\<lparr>prototype := v\<rparr>)
      else obj\<lparr>properties := (properties obj)(k \<mapsto> v)\<rparr>)"

record cache_entry =
  price :: price_record
  timestamp :: int

record source_urls =
  coingecko :: string
  chainlink :: string
  uniswap :: string

record PriceOracle =
  cache :: "string \<rightharpoonup> cache_entry"
  cacheTTL :: int
  sources :: source_urls

text \<open>
  The \<open>axios.get\<close> call: the URL and the query parameters that the two callers set.
  The upstream collaborator answers a request with an error (the promise rejects) or
  with \<open>response.data\<close>, an object from identifiers to entries.  Every operation
  returns, next to its result and the oracle after it, the list of requests it sent.
\<close>

record request =
  url :: string
  ids :: string
  vs_currencies :: string
  include_24hr_change :: bool
  include_market_cap :: bool
  include_24hr_vol :: bool

type_synonym upstream = "request \<Rightarrow> error + (string \<rightharpoonup> coin_data)"

definition PriceOracle_new :: PriceOracle where
  "PriceOracle_new =
     \<lparr>cache = Map.empty, cacheTTL = 60000,
      sources = \<lparr>coingecko = ''https://api.coingecko.com/api/v3'',
                 chainlink = ''chainlink-feeds'', uniswap = ''uniswap-pools''\<rparr>\<rparr>"

definition mapping :: "(string \<times> string) list" where
  "mapping =
     [(''ETH'', ''ethereum''), (''BTC'', ''bitcoin''), (''USDC'', ''usd-coin''),
      (''USDT'', ''tether''), (''DAI'', ''dai''), (''WETH'', ''weth''),
      (''WBTC'', ''wrapped-bitcoin''), (''UNI'', ''uniswap''), (''AAVE'', ''aave''),
      (''LINK'', ''chainlink''), (''MATIC'', ''matic-network''), (''ARB'', ''arbitrum'')]"

text \<open>
  \<open>mapping[symbol.toUpperCase()] || symbol.toLowerCase()\<close>: the right operand is taken
  when the left one is \<open>undefined\<close> or the empty string.  The table is read by its own
  entries only: every name that an object inherits holds a lowercase letter, an uppercased
  symbol holds none (lemma \<open>toUpperCase_not_inherited\<close>).
\<close>

definition getCoinGeckoId :: "string \<Rightarrow> string" where
  "getCoinGeckoId symbol =
     (case map_of mapping (toUpperCase symbol) of
        None \<Rightarrow> toLowerCase symbol
      | Some coinId \<Rightarrow> if coinId = [] then toLowerCase symbol else coinId)"

definition priceRequest :: "PriceOracle \<Rightarrow> string \<Rightarrow> request" where
  "priceRequest oracle coinId =
     \<lparr>url = coingecko (sources oracle) @ ''/simple/price'', ids = coinId,
      vs_currencies = ''usd'', include_24hr_change = True, include_market_cap = True,
      include_24hr_vol = True\<rparr>"

definition fetchPriceFromCoinGecko ::
  "PriceOracle \<Rightarrow> upstream \<Rightarrow> string \<Rightarrow> (error + price_record) \<times> request list" where
  "fetchPriceFromCoinGecko oracle http tokenSymbol =
     (let coinId = getCoinGeckoId tokenSymbol;
          req = priceRequest oracle coinId
      in case http req of
           Inl e \<Rightarrow> (Inl e, [req])
         | Inr response_data \<Rightarrow>
             (case getProperty response_data coinId of
                Undefined \<Rightarrow> (Inl TypeError, [req])
              | Entry d \<Rightarrow>
                  (Inr \<lparr>price_usd = usd d, change24h = usd_24h_change d,
                        marketCap = usd_market_cap d, volume24h = usd_24h_vol d\<rparr>, [req])
              | ObjectPrototype \<Rightarrow>
                  (Inr \<lparr>price_usd = None, change24h = None, marketCap = None,
                        volume24h = None\<rparr>, [req])
              | Builtin f \<Rightarrow>
                  (Inr \<lparr>price_usd = None, change24h = None, marketCap = None,
                        volume24h = None\<rparr>, [req])))"

text \<open>
  \<open>getPrice\<close> reads the clock twice: \<open>tCheck\<close> is \<open>Date.now()\<close> at the cache check,
  \<open>tStore\<close> is \<open>Date.now()\<close> when the fetched price is stored.
\<close>

definition getPrice ::
  "PriceOracle \<Rightarrow> upstream \<Rightarrow> int \<Rightarrow> int \<Rightarrow> string \<Rightarrow>
     (error + price_record) \<times> PriceOracle \<times> request list" where
  "getPrice oracle http tCheck tStore tokenSymbol =
     (let cacheKey = ''price_'' @ toLowerCase tokenSymbol;
          hit = (case cache oracle cacheKey of
                   None \<Rightarrow> None
                 | Some cached \<Rightarrow>
                     if tCheck - timestamp cached < cacheTTL oracle
                     then Some (price cached) else None)
      in case hit of
           Some p \<Rightarrow> (Inr p, oracle, [])
         | None \<Rightarrow>
             (case fetchPriceFromCoinGecko oracle http tokenSymbol of
                (Inl e, reqs) \<Rightarrow> (Inl e, oracle, reqs)
              | (Inr p, reqs) \<Rightarrow>
                  (Inr p,
                   oracle\<lparr>cache := (cache oracle)(cacheKey \<mapsto> \<lparr>price = p, timestamp = tStore\<rparr>)\<rparr>,
                   reqs)))"

definition batchRequest :: "PriceOracle \<Rightarrow> string list \<Rightarrow> request" where
  "batchRequest oracle coinIds =
     \<lparr>url = coingecko (sources oracle) @ ''/simple/price'', ids = join '','' coinIds,
      vs_currencies = ''usd'', include_24hr_change = True, include_market_cap = False,
      include_24hr_vol = False\<rparr>"

text \<open>
  \<open>getBatchPrices\<close> starts from the empty object and assigns
  \<open>prices[symbol] = response.data[coinId]\<close> for the symbols with their indices, in order.
\<close>

definition getBatchPrices ::
  "PriceOracle \<Rightarrow> upstream \<Rightarrow> string list \<Rightarrow>
     (error + js_object) \<times> PriceOracle \<times> request list" where
  "getBatchPrices oracle http tokenSymbols =
     (let coinIds = map getCoinGeckoId tokenSymbols;
          req = batchRequest oracle coinIds
      in case http req of
           Inl e \<Rightarrow> (Inl e, oracle, [req])
         | Inr response_data \<Rightarrow>
             (Inr (foldl (\<lambda>prices (symbol, index).
                            setProperty prices symbol (getProperty response_data (coinIds ! index)))
                     emptyObject (zip tokenSymbols [0..<length tokenSymbols])),
              oracle, [req]))"



subsection \<open>The resolution of a symbol as the specification words it\<close>

text \<open>
  The specification resolves a symbol by "uppercase trim", then the table, with the
  lowercased symbol as the fallback.  \<open>trim\<close> is \<open>String.prototype.trim\<close> on ASCII: it
  drops blanks, tabs and line breaks at both ends.  \<open>resolveSymbol_spec\<close> follows these
  words; it is compared with \<open>getCoinGeckoId\<close>, which follows the source.
\<close>

definition isWhiteSpace :: "char \<Rightarrow> bool" where
  "isWhiteSpace c = (let n = (of_char c :: nat) in n = 32 \<or> (9 \<le> n \<and> n \<le> 13))"

definition trim :: "string \<Rightarrow> string" where
  "trim s = rev (dropWhile isWhiteSpace (rev (dropWhile isWhiteSpace s)))"

definition resolveSymbol_spec :: "string \<Rightarrow> string" where
  "resolveSymbol_spec s =
     (case map_of mapping (trim (toUpperCase s)) of
        Some coinId \<Rightarrow> coinId
      | None \<Rightarrow> trim (toLowerCase s))"

subsection \<open>Reading a request back\<close>

text \<open>
  The identifiers a batch request asks for are its \<open>ids\<close> parameter split at the
  commas (\<open>String.prototype.split\<close> with a one-character separator).  \<open>isAscii\<close> marks
  the characters on which the case mapping of this theory is JavaScript's.
\<close>

fun splitOn :: "char \<Rightarrow> string \<Rightarrow> string list" where
  "splitOn sep [] = [[]]"
| "splitOn sep (c # cs) =
     (if c = sep then [] # splitOn sep cs
      else (case splitOn sep cs of
              [] \<Rightarrow> [[c]]
            | w # ws \<Rightarrow> (c # w) # ws))"

definition isAscii :: "char \<Rightarrow> bool" where
  "isAscii c = ((of_char c :: nat) < 128)"

subsection \<open>The mocked upstream of the specification's batch example\<close>

text \<open>The upstream answers every request with \<open>{ethereum: {usd: 2000}, "usd-coin": {usd: 1}}\<close>.\<close>

definition usdOnly :: "rat \<Rightarrow> coin_data" where
  "usdOnly x = \<lparr>usd = Some x, usd_24h_change = None, usd_market_cap = None, usd_24h_vol = None\<rparr>"

definition mockData :: "string \<rightharpoonup> coin_data" where
  "mockData = [''ethereum'' \<mapsto> usdOnly 2000, ''usd-coin'' \<mapsto> usdOnly 1]"

definition mockUpstream :: upstream where
  "mockUpstream req = Inr mockData"

section \<open>Uniswap analytics (class UniswapAnalytics): the price of a pool\<close>

text \<open>
  \<open>calculatePrice\<close> computes with \<open>ethers.BigNumber\<close> (ethers 5.7), integers of any
  size: \<open>BigNumber.from\<close> of a JavaScript number rejects an integer outside the safe
  range, \<open>pow\<close> a negative exponent, \<open>div\<close> a zero divisor, and \<open>div\<close> truncates.
\<close>

definition MAX_SAFE :: int where
  "MAX_SAFE = 9007199254740991"

definition BigNumber_from :: "int \<Rightarrow> error + int" where
  "BigNumber_from n =
     (if MAX_SAFE \<le> n \<or> n \<le> - MAX_SAFE then Inl NumericOverflow else Inr n)"

definition bn_pow :: "int \<Rightarrow> int \<Rightarrow> error + int" where
  "bn_pow b other =
     (case BigNumber_from other of
        Inl e \<Rightarrow> Inl e
      | Inr n \<Rightarrow> if n < 0 then Inl NegativePower else Inr (b ^ nat n))"

definition bn_mul :: "int \<Rightarrow> int \<Rightarrow> int" where
  "bn_mul a b = a * b"

definition bn_div :: "int \<Rightarrow> int \<Rightarrow> error + int" where
  "bn_div a b =
     (if b = 0 then Inl DivisionByZero else Inr (sgn a * sgn b * (\<bar>a\<bar> div \<bar>b\<bar>)))"

text \<open>
  \<open>ethers.utils.formatUnits(value, decimals)\<close> with a number of decimals is
  \<open>formatFixed\<close>: the decimal string of \<open>value / 10^decimals\<close>, with the whole part, a
  point and the fraction, the fraction padded to \<open>decimals\<close> digits and its trailing
  zeros removed (one digit is kept); no point when \<open>decimals\<close> is 0.  More than 256
  decimals are refused.  \<open>toDecimal\<close> is \<open>toString()\<close> of a natural number.
\<close>

definition digitChar :: "nat \<Rightarrow> char" where
  "digitChar d = ''0123456789'' ! d"

fun toDecimal :: "nat \<Rightarrow> string" where
  "toDecimal n = (if n < 10 then [digitChar n] else toDecimal (n div 10) @ [digitChar (n mod 10)])"

definition getMultiplier :: "int \<Rightarrow> error + string" where
  "getMultiplier decimals =
     (if 0 \<le> decimals \<and> decimals \<le> 256
      then Inr (CHR ''1'' # replicate (nat decimals) (CHR ''0''))
      else Inl InvalidDecimalSize)"

definition padZeros :: "nat \<Rightarrow> string \<Rightarrow> string" where
  "padZeros n s = replicate (n - length s) (CHR ''0'') @ s"

definition stripZeros :: "string \<Rightarrow> string" where
  "stripZeros fraction =
     (let kept = rev (dropWhile (\<lambda>c. c = CHR ''0'') (rev fraction))
      in if kept = [] then ''0'' else kept)"

definition formatFixed :: "int \<Rightarrow> int \<Rightarrow> error + string" where
  "formatFixed v decimals =
     (case getMultiplier decimals of
        Inl e \<Rightarrow> Inl e
      | Inr multiplier \<Rightarrow>
          (let m = (10::nat) ^ (length multiplier - 1);
               negative = (v < 0);
               u = nat (if negative then v * (- 1) else v);
               fraction = stripZeros (padZeros (length multiplier - 1) (toDecimal (u mod m)));
               whole = toDecimal (u div m);
               r = (if length multiplier = 1 then whole else whole @ ''.'' @ fraction)
           in Inr (if negative then ''-'' @ r else r)))"

definition formatUnits :: "int \<Rightarrow> int \<Rightarrow> error + string" where
  "formatUnits v unitName = formatFixed v unitName"

definition calculatePrice :: "160 word \<Rightarrow> int \<Rightarrow> int \<Rightarrow> error + string" where
  "calculatePrice sqrtPriceX96 token0Decimals token1Decimals =
     (case bn_pow 2 96 of
        Inl e \<Rightarrow> Inl e
      | Inr Q96 \<Rightarrow>
     (case bn_div (bn_mul (uint sqrtPriceX96) (uint sqrtPriceX96)) Q96 of
        Inl e \<Rightarrow> Inl e
      | Inr price' \<Rightarrow>
     (case bn_pow 10 token0Decimals of
        Inl e \<Rightarrow> Inl e
      | Inr scale0 \<Rightarrow>
     (case bn_pow 10 token1Decimals of
        Inl e \<Rightarrow> Inl e
      | Inr scale1 \<Rightarrow>
     (case bn_div (bn_mul price' scale0) scale1 of
        Inl e \<Rightarrow> Inl e
      | Inr adjustedPrice \<Rightarrow> formatUnits adjustedPrice token1Decimals)))))"

text \<open>
  The number a decimal string denotes, to state what the string returned by
  \<open>calculatePrice\<close> is worth; \<open>adjustedPrice\<close> is the value of the source's variable of
  that name when nothing throws.
\<close>

definition digitVal :: "char \<Rightarrow> nat" where
  "digitVal c = of_char c - 48"

definition readDecimal :: "string \<Rightarrow> nat" where
  "readDecimal s = foldl (\<lambda>a c. 10 * a + digitVal c) 0 s"

definition decimalValue :: "string \<Rightarrow> rat" where
  "decimalValue s =
     (let negative = (take 1 s = ''-'');
          u = (if negative then drop 1 s else s);
          whole = takeWhile (\<lambda>c. c \<noteq> CHR ''.'') u;
          fraction = drop 1 (dropWhile (\<lambda>c. c \<noteq> CHR ''.'') u);
          x = of_nat (readDecimal whole) + of_nat (readDecimal fraction) / 10 ^ length fraction
      in if negative then - x else x)"

definition adjustedPrice :: "160 word \<Rightarrow> int \<Rightarrow> int \<Rightarrow> int" where
  "adjustedPrice sqrtPriceX96 token0Decimals token1Decimals =
     (uint sqrtPriceX96 * uint sqrtPriceX96 div 2 ^ 96) * 10 ^ nat token0Decimals
       div 10 ^ nat token1Decimals"

section \<open>Uniswap analytics: the address of a pool\<close>

text \<open>
  \<open>computePoolAddress\<close> calls three functions of ethers 5.7: \<open>keccak256\<close>,
  \<open>defaultAbiCoder.encode\<close> and \<open>getCreate2Address\<close>.  The hash function is a parameter
  (\<open>keccak256\<close> of \<open>crypto\<close>, from a byte sequence to a 256-bit number), and so is the
  decoding of an ICAP address (\<open>XE...\<close>), which \<open>getAddress\<close> accepts besides hexadecimal
  addresses.  Everything else is modelled: bytes are naturals below 256; \<open>getAddress\<close>
  checks the form \<open>/^(0x)?[0-9a-fA-F]{40}$/\<close>, adds a missing prefix, computes the
  checksummed spelling from the hash of the lowercased digits and refuses a mixed-case
  address that is not spelled so; the encoder writes an address and a \<open>uint24\<close> as
  32-byte big-endian words; \<open>getCreate2Address\<close> hashes \<open>0xff\<close>, the deployer, the salt
  and the init-code hash and keeps the last 20 bytes.  An argument that is \<open>undefined\<close>
  is \<open>None\<close>.
\<close>

record crypto =
  keccak256 :: "nat list \<Rightarrow> nat"
  icapAddress :: "string \<Rightarrow> error + string"

definition isDigit :: "char \<Rightarrow> bool" where
  "isDigit c = (let n = (of_char c :: nat) in 48 \<le> n \<and> n \<le> 57)"

definition isUpperHex :: "char \<Rightarrow> bool" where
  "isUpperHex c = (let n = (of_char c :: nat) in 65 \<le> n \<and> n \<le> 70)"

definition isLowerHex :: "char \<Rightarrow> bool" where
  "isLowerHex c = (let n = (of_char c :: nat) in 97 \<le> n \<and> n \<le> 102)"

definition isHexDigit :: "char \<Rightarrow> bool" where
  "isHexDigit c = (isDigit c \<or> isUpperHex c \<or> isLowerHex c)"

definition isAlnum :: "char \<Rightarrow> bool" where
  "isAlnum c =
     (let n = (of_char c :: nat)
      in (48 \<le> n \<and> n \<le> 57) \<or> (65 \<le> n \<and> n \<le> 90) \<or> (97 \<le> n \<and> n \<le> 122))"

definition matchesHexAddress :: "string \<Rightarrow> bool" where
  "matchesHexAddress a =
     ((length a = 40 \<and> list_all isHexDigit a)
      \<or> (length a = 42 \<and> take 2 a = ''0x'' \<and> list_all isHexDigit (drop 2 a)))"

definition matchesIcap :: "string \<Rightarrow> bool" where
  "matchesIcap a =
     ((length a = 34 \<or> length a = 35) \<and> take 2 a = ''XE''
      \<and> list_all isDigit (take 2 (drop 2 a)) \<and> list_all isAlnum (drop 4 a))"

definition hasMixedCase :: "string \<Rightarrow> bool" where
  "hasMixedCase a = (list_ex isUpperHex a \<and> list_ex isLowerHex a)"

definition isHexString20 :: "string \<Rightarrow> bool" where
  "isHexString20 a = (take 2 a = ''0x'' \<and> list_all isHexDigit (drop 2 a) \<and> length a = 42)"

fun toBytes :: "nat \<Rightarrow> nat \<Rightarrow> nat list" where
  "toBytes 0 v = []"
| "toBytes (Suc n) v = toBytes n (v div 256) @ [v mod 256]"

definition arrayify32 :: "nat \<Rightarrow> nat list" where
  "arrayify32 h = toBytes 32 (h mod 2 ^ 256)"

fun checksumChars :: "string \<Rightarrow> nat list \<Rightarrow> string" where
  "checksumChars (c0 # c1 # cs) (h # hs) =
     (if 8 \<le> h div 16 then toUpperChar c0 else c0)
       # (if 8 \<le> h mod 16 then toUpperChar c1 else c1)
       # checksumChars cs hs"
| "checksumChars cs hs = cs"

definition getChecksumAddress :: "crypto \<Rightarrow> string \<Rightarrow> error + string" where
  "getChecksumAddress L address =
     (if \<not> isHexString20 address then Inl InvalidAddress
      else
        (let chars = drop 2 (toLowerCase address);
             expanded = map (\<lambda>c. of_char c :: nat) chars;
             hashed = arrayify32 (keccak256 L expanded)
         in Inr (''0x'' @ checksumChars chars hashed)))"

definition getAddress :: "crypto \<Rightarrow> string \<Rightarrow> error + string" where
  "getAddress L address =
     (if matchesHexAddress address then
        (let address' = (if take 2 address \<noteq> ''0x'' then ''0x'' @ address else address)
         in case getChecksumAddress L address' of
              Inl e \<Rightarrow> Inl e
            | Inr result \<Rightarrow>
                if hasMixedCase address' \<and> result \<noteq> address' then Inl BadAddressChecksum
                else Inr result)
      else if matchesIcap address then icapAddress L address
      else Inl InvalidAddress)"

definition isAddress :: "crypto \<Rightarrow> string \<Rightarrow> bool" where
  "isAddress L address = (case getAddress L address of Inl e \<Rightarrow> False | Inr a \<Rightarrow> True)"

definition hexDigitValue :: "char \<Rightarrow> nat" where
  "hexDigitValue c =
     (let n = (of_char c :: nat)
      in if isDigit c then n - 48 else if isUpperHex c then n - 55 else n - 87)"

fun hexToBytes :: "string \<Rightarrow> nat list" where
  "hexToBytes (a # b # cs) = (16 * hexDigitValue a + hexDigitValue b) # hexToBytes cs"
| "hexToBytes cs = []"

definition hexChar :: "nat \<Rightarrow> char" where
  "hexChar d = ''0123456789abcdef'' ! d"

definition hexlify :: "nat list \<Rightarrow> string" where
  "hexlify bs = ''0x'' @ concat (map (\<lambda>b. [hexChar (b div 16), hexChar (b mod 16)]) bs)"

definition encodeAddress :: "crypto \<Rightarrow> string \<Rightarrow> error + nat list" where
  "encodeAddress L v =
     (case getAddress L v of
        Inl e \<Rightarrow> Inl e
      | Inr a \<Rightarrow> Inr (replicate 12 0 @ hexToBytes (drop 2 a)))"

definition encodeUint24 :: "int option \<Rightarrow> error + nat list" where
  "encodeUint24 v =
     (case v of
        None \<Rightarrow> Inl InvalidBigNumber
      | Some n \<Rightarrow>
          (case BigNumber_from n of
             Inl e \<Rightarrow> Inl e
           | Inr b \<Rightarrow>
               if b < 0 \<or> 2 ^ 24 - 1 < b then Inl ValueOutOfBounds
               else Inr (toBytes 32 (nat b))))"

definition abiEncode :: "crypto \<Rightarrow> string \<Rightarrow> string \<Rightarrow> int option \<Rightarrow> error + nat list" where
  "abiEncode L tokenA tokenB fee =
     (case encodeAddress L tokenA of
        Inl e \<Rightarrow> Inl e
      | Inr a \<Rightarrow>
     (case encodeAddress L tokenB of
        Inl e \<Rightarrow> Inl e
      | Inr b \<Rightarrow>
     (case encodeUint24 fee of
        Inl e \<Rightarrow> Inl e
      | Inr f \<Rightarrow> Inr (a @ b @ f))))"

definition getCreate2Address :: "crypto \<Rightarrow> string \<Rightarrow> nat \<Rightarrow> nat \<Rightarrow> error + string" where
  "getCreate2Address L deployer salt initCodeHash =
     (case getAddress L deployer of
        Inl e \<Rightarrow> Inl e
      | Inr d \<Rightarrow>
          getAddress L
            (hexlify (drop 12 (arrayify32 (keccak256 L
               ([255] @ hexToBytes (drop 2 d) @ arrayify32 salt @ arrayify32 initCodeHash))))))"

definition factoryAddress :: string where
  "factoryAddress = ''0x1F98431c8aD98523631AE4a59f267346ea31F984''"

definition POOL_INIT_CODE_HASH :: nat where
  "POOL_INIT_CODE_HASH = 0xe34f199b19b2b4f47f68442619d555527d244f78a3297ea89325f843f87b8b54"

definition computePoolAddress ::
  "crypto \<Rightarrow> string option \<Rightarrow> string option \<Rightarrow> int option \<Rightarrow> error + string" where
  "computePoolAddress L token0 token1 fee =
     (case token0 of
        None \<Rightarrow> Inl TypeError
      | Some t0 \<Rightarrow>
     (case token1 of
        None \<Rightarrow> Inl TypeError
      | Some t1 \<Rightarrow>
          (let (tokenA, tokenB) =
                 (if toLowerCase t0 < toLowerCase t1 then (t0, t1) else (t1, t0))
           in case abiEncode L tokenA tokenB fee of
                Inl e \<Rightarrow> Inl e
              | Inr encoded \<Rightarrow>
                  getCreate2Address L factoryAddress (keccak256 L encoded) POOL_INIT_CODE_HASH)))"

text \<open>
  A stand-in hash for concrete evaluation: it maps every input to one 256-bit value,
  chosen so that the factory address is spelled as its own checksum requires.
\<close>

definition mockCrypto :: crypto where
  "mockCrypto =
     \<lparr>keccak256 = (\<lambda>bytes. 0x0800000000800000000880000000000000008000000000000000000000000000),
      icapAddress = (\<lambda>a. Inl InvalidAddress)\<rparr>"

text \<open>
  For the proofs: a hexadecimal address with its prefix, and the checksummed spelling
  that \<open>getChecksumAddress\<close> returns for it.
\<close>

definition withPrefix :: "string \<Rightarrow> string" where
  "withPrefix a = (if take 2 a \<noteq> ''0x'' then ''0x'' @ a else a)"

definition checksumOf :: "crypto \<Rightarrow> string \<Rightarrow> string" where
  "checksumOf L a =
     ''0x'' @ checksumChars (drop 2 (toLowerCase a))
               (arrayify32 (keccak256 L (map (\<lambda>c. of_char c :: nat) (drop 2 (toLowerCase a)))))"

section \<open>JavaScript numbers\<close>

text \<open>
  The two analytics below compute with JavaScript numbers.  \<open>jsnum\<close> keeps what their
  control flow depends on: a finite value, the two infinities and \<open>NaN\<close>, with the IEEE
  rules for them (a comparison with \<open>NaN\<close> is false, \<open>x / 0\<close> is an infinity or \<open>NaN\<close>).
  Finite values are exact rationals: rounding and the sign of zero are left out.
\<close>

datatype jsnum = Num rat | PosInfinity | NegInfinity | NaN

definition js_sign :: "jsnum \<Rightarrow> int" where
  "js_sign x =
     (case x of Num r \<Rightarrow> (if r < 0 then - 1 else if r = 0 then 0 else 1)
      | PosInfinity \<Rightarrow> 1 | NegInfinity \<Rightarrow> - 1 | NaN \<Rightarrow> 0)"

definition js_infinity :: "int \<Rightarrow> jsnum" where
  "js_infinity s = (if s < 0 then NegInfinity else PosInfinity)"

fun js_add :: "jsnum \<Rightarrow> jsnum \<Rightarrow> jsnum" where
  "js_add (Num a) (Num b) = Num (a + b)"
| "js_add NaN y = NaN"
| "js_add x NaN = NaN"
| "js_add PosInfinity NegInfinity = NaN"
| "js_add NegInfinity PosInfinity = NaN"
| "js_add PosInfinity y = PosInfinity"
| "js_add NegInfinity y = NegInfinity"
| "js_add x PosInfinity = PosInfinity"
| "js_add x NegInfinity = NegInfinity"

fun js_mul :: "jsnum \<Rightarrow> jsnum \<Rightarrow> jsnum" where
  "js_mul (Num a) (Num b) = Num (a * b)"
| "js_mul NaN y = NaN"
| "js_mul x NaN = NaN"
| "js_mul x y = (if js_sign x * js_sign y = 0 then NaN else js_infinity (js_sign x * js_sign y))"

fun js_div :: "jsnum \<Rightarrow> jsnum \<Rightarrow> jsnum" where
  "js_div (Num a) (Num b) =
     (if b \<noteq> 0 then Num (a / b) else if a = 0 then NaN else js_infinity (js_sign (Num a)))"
| "js_div NaN y = NaN"
| "js_div x NaN = NaN"
| "js_div (Num a) y = Num 0"
| "js_div x (Num b) = js_infinity (js_sign x * (if b < 0 then - 1 else 1))"
| "js_div x y = NaN"

fun js_less :: "jsnum \<Rightarrow> jsnum \<Rightarrow> bool" where
  "js_less (Num a) (Num b) = (a < b)"
| "js_less NaN y = False"
| "js_less x NaN = False"
| "js_less NegInfinity y = (y \<noteq> NegInfinity)"
| "js_less x PosInfinity = (x \<noteq> PosInfinity)"
| "js_less x y = False"

section \<open>Portfolio analytics (class PortfolioAnalytics): risk metrics\<close>

text \<open>
  \<open>getAavePositions\<close> is the source's placeholder, which returns no position;
  \<open>getLendingPositions\<close> catches an error of it.  \<open>riskMetricsOf\<close> is the body of
  \<open>calculateRiskMetrics\<close> after the positions are fetched, so that it can be stated
  for every list of positions.  No operation in it throws.
\<close>

record position =
  pos_type :: string
  pos_value :: jsnum
  pos_liquidationThreshold :: jsnum

record risk_metrics =
  healthFactor :: jsnum
  collateralizationRatio :: jsnum
  liquidationRisk :: string
  totalCollateral :: jsnum
  totalDebt :: jsnum

definition getAavePositions :: "string \<Rightarrow> error + position list" where
  "getAavePositions address = Inr []"

definition getLendingPositions :: "string \<Rightarrow> position list" where
  "getLendingPositions address =
     (case getAavePositions address of
        Inl e \<Rightarrow> []
      | Inr aavePositions \<Rightarrow> [] @ aavePositions)"

fun sumPositions ::
  "position list \<Rightarrow> jsnum \<times> jsnum \<times> jsnum \<Rightarrow> jsnum \<times> jsnum \<times> jsnum" where
  "sumPositions [] acc = acc"
| "sumPositions (p # ps) (collateral, debt, threshold) =
     (if pos_type p = ''collateral''
      then sumPositions ps
             (js_add collateral (pos_value p), debt,
              js_add threshold (js_mul (pos_value p) (pos_liquidationThreshold p)))
      else if pos_type p = ''debt''
      then sumPositions ps (collateral, js_add debt (pos_value p), threshold)
      else sumPositions ps (collateral, debt, threshold))"

definition riskMetricsOf :: "position list \<Rightarrow> risk_metrics" where
  "riskMetricsOf positions =
     (let (collateral, debt, threshold) = sumPositions positions (Num 0, Num 0, Num 0);
          health = (if js_less (Num 0) collateral
                    then js_div (js_div threshold collateral) (js_div debt collateral)
                    else PosInfinity)
      in \<lparr>healthFactor = health,
          collateralizationRatio =
            (if js_less (Num 0) debt then js_div collateral debt else PosInfinity),
          liquidationRisk =
            (if js_less health (Num (3 / 2)) then ''High''
             else if js_less health (Num 2) then ''Medium'' else ''Low''),
          totalCollateral = collateral,
          totalDebt = debt\<rparr>)"

definition calculateRiskMetrics :: "string \<Rightarrow> risk_metrics" where
  "calculateRiskMetrics address = riskMetricsOf (getLendingPositions address)"

section \<open>Uniswap analytics: pool state and liquidity APY\<close>

text \<open>
  The chain RPC collaborator answers the four reads of a pool contract at once, or
  fails.  \<open>getPoolInfo\<close> takes two token addresses and a fee;
  \<open>calculateLiquidityAPY\<close> calls it with the pool address alone, so that the second
  token and the fee are \<open>undefined\<close>.  \<open>get24hVolume\<close> is the source's constant.
\<close>

record pool_reads =
  rpc_sqrtPriceX96 :: "160 word"
  rpc_tick :: int
  rpc_observationIndex :: nat
  rpc_observationCardinality :: nat
  rpc_liquidity :: "128 word"
  rpc_token0 :: string
  rpc_token1 :: string

type_synonym provider = "string \<Rightarrow> error + pool_reads"

record pool_info =
  address :: string
  token0 :: string
  token1 :: string
  fee :: "int option"
  sqrtPriceX96 :: "160 word"
  tick :: int
  liquidity :: string
  observationIndex :: nat
  observationCardinality :: nat

definition getPoolInfo ::
  "crypto \<Rightarrow> provider \<Rightarrow> string option \<Rightarrow> string option \<Rightarrow> int option \<Rightarrow> error + pool_info" where
  "getPoolInfo L rpc token0Address token1Address fee' =
     (case computePoolAddress L token0Address token1Address fee' of
        Inl e \<Rightarrow> Inl e
      | Inr poolAddress \<Rightarrow>
          (case rpc poolAddress of
             Inl e \<Rightarrow> Inl e
           | Inr r \<Rightarrow>
               Inr \<lparr>address = poolAddress, token0 = rpc_token0 r, token1 = rpc_token1 r,
                    fee = fee', sqrtPriceX96 = rpc_sqrtPriceX96 r, tick = rpc_tick r,
                    liquidity = toDecimal (unat (rpc_liquidity r)),
                    observationIndex = rpc_observationIndex r,
                    observationCardinality = rpc_observationCardinality r\<rparr>))"

record apy_result =
  apy :: jsnum
  inRange :: bool
  apy_volume24h :: "jsnum option"
  apy_fees24h :: "jsnum option"

definition get24hVolume :: "string \<Rightarrow> jsnum" where
  "get24hVolume poolAddress = Num 100000"

definition toNumber :: "string \<Rightarrow> jsnum" where
  "toNumber s = (if s \<noteq> [] \<and> list_all isDigit s then Num (of_nat (readDecimal s)) else NaN)"

definition calculateLiquidityAPY ::
  "crypto \<Rightarrow> provider \<Rightarrow> string \<Rightarrow> int \<Rightarrow> int \<Rightarrow> error + apy_result" where
  "calculateLiquidityAPY L rpc poolAddress positionTickLower positionTickUpper =
     (case getPoolInfo L rpc (Some poolAddress) None None of
        Inl e \<Rightarrow> Inl e
      | Inr poolInfo \<Rightarrow>
          (let currentTick = tick poolInfo;
               inRange' = (positionTickLower \<le> currentTick \<and> currentTick \<le> positionTickUpper)
           in if \<not> inRange'
              then Inr \<lparr>apy = Num 0, inRange = False, apy_volume24h = None, apy_fees24h = None\<rparr>
              else
                (let volume24h' = get24hVolume poolAddress;
                     feeRate = js_div (case fee poolInfo of None \<Rightarrow> NaN | Some n \<Rightarrow> Num (of_int n))
                                      (Num 1000000);
                     fees24h' = js_mul volume24h' feeRate;
                     apy' = js_mul (js_div (js_mul fees24h' (Num 365)) (toNumber (liquidity poolInfo)))
                                   (Num 100)
                 in Inr \<lparr>apy = apy', inRange = True, apy_volume24h = Some volume24h',
                         apy_fees24h = Some fees24h'\<rparr>)))"

section \<open>Verified properties of the price oracle\<close>

lemma toLowerChar_toUpperChar: "toLowerChar (toUpperChar c) = toLowerChar c"
  by (auto simp add: toLowerChar_def toUpperChar_def Let_def)

lemma toLowerCase_toUpperCase: "toLowerCase (toUpperCase s) = toLowerCase s"
  by (simp add: toLowerCase_def toUpperCase_def toLowerChar_toUpperChar)

lemma toUpperChar_not_lower:
  "\<not> (97 \<le> (of_char (toUpperChar c) :: nat) \<and> (of_char (toUpperChar c) :: nat) \<le> 122)"
  by (auto simp add: toUpperChar_def Let_def)

lemma toUpperCase_no_lower:
  assumes "97 \<le> (of_char x :: nat)" "(of_char x :: nat) \<le> 122"
  shows "x \<notin> set (toUpperCase s)"
  using assms toUpperChar_not_lower by (auto simp add: toUpperCase_def)

lemma toUpperCase_not_inherited:
  "toUpperCase s \<notin> set objectPrototypeKeys \<and> toUpperCase s \<noteq> ''__proto__''"
proof -
  have o: "CHR ''o'' \<notin> set (toUpperCase s)" by (rule toUpperCase_no_lower) simp_all
  have e: "CHR ''e'' \<notin> set (toUpperCase s)" by (rule toUpperCase_no_lower) simp_all
  have "\<forall>k \<in> set (''__proto__'' # objectPrototypeKeys). CHR ''o'' \<in> set k \<or> CHR ''e'' \<in> set k"
    by (simp add: objectPrototypeKeys_def)
  with o e show ?thesis by (metis list.set_intros(1) list.set_intros(2))
qed

lemma mapping_nonempty: "map_of mapping k = Some v \<Longrightarrow> v \<noteq> []"
  by (auto simp add: mapping_def split: if_splits)

lemma getCoinGeckoId_table:
  "getCoinGeckoId s =
     (case map_of mapping (toUpperCase s) of Some coinId \<Rightarrow> coinId | None \<Rightarrow> toLowerCase s)"
  by (auto simp add: getCoinGeckoId_def dest: mapping_nonempty split: option.splits)

lemma isWhiteSpace_toUpperChar: "isWhiteSpace (toUpperChar c) = isWhiteSpace c"
  by (auto simp add: isWhiteSpace_def toUpperChar_def Let_def)

lemma isWhiteSpace_toLowerChar: "isWhiteSpace (toLowerChar c) = isWhiteSpace c"
  by (auto simp add: isWhiteSpace_def toLowerChar_def Let_def)

lemma dropWhile_map_inv:
  "(\<And>c. P (f c) = P c) \<Longrightarrow> dropWhile P (map f s) = map f (dropWhile P s)"
  by (induction s) auto

lemma trim_map_inv:
  assumes "\<And>c. isWhiteSpace (f c) = isWhiteSpace c"
  shows "trim (map f s) = map f (trim s)"
  using assms by (simp add: trim_def dropWhile_map_inv rev_map)

lemma trim_toUpperCase: "trim (toUpperCase s) = toUpperCase (trim s)"
  by (simp add: toUpperCase_def trim_map_inv isWhiteSpace_toUpperChar)

lemma trim_toLowerCase: "trim (toLowerCase s) = toLowerCase (trim s)"
  by (simp add: toLowerCase_def trim_map_inv isWhiteSpace_toLowerChar)

lemma fetch_requests:
  "snd (fetchPriceFromCoinGecko oracle http s) = [priceRequest oracle (getCoinGeckoId s)]"
  by (simp add: fetchPriceFromCoinGecko_def Let_def split: sum.splits js_value.splits)

text \<open>
  Claim C6, as amended.  The identifier that \<open>getPrice\<close> sends upstream is the table
  entry of the uppercased symbol, or the lowercased symbol when the table has none; the
  symbol is not trimmed.  The source and the specification's resolution agree on a symbol
  that is trimmed beforehand.
\<close>

theorem getCoinGeckoId_no_trim:
  "map ids (snd (fetchPriceFromCoinGecko oracle http s)) =
     [case map_of mapping (toUpperCase s) of
        Some coinId \<Rightarrow> coinId
      | None \<Rightarrow> toLowerCase s]
   \<and> snd (snd (getPrice PriceOracle_new http tCheck tStore s)) =
       snd (fetchPriceFromCoinGecko PriceOracle_new http s)
   \<and> getCoinGeckoId (trim s) = resolveSymbol_spec s"
proof -
  have "map ids (snd (fetchPriceFromCoinGecko oracle http s)) = [getCoinGeckoId s]"
    by (simp add: fetch_requests priceRequest_def)
  moreover have "snd (snd (getPrice PriceOracle_new http tCheck tStore s)) =
       snd (fetchPriceFromCoinGecko PriceOracle_new http s)"
    by (simp add: getPrice_def PriceOracle_new_def split: prod.splits sum.splits)
  moreover have "getCoinGeckoId (trim s) = resolveSymbol_spec s"
    by (simp add: getCoinGeckoId_table resolveSymbol_spec_def trim_toUpperCase trim_toLowerCase
          split: option.splits)
  ultimately show ?thesis
    by (simp add: getCoinGeckoId_table)
qed

text \<open>
  Claim C6 as stated fails on a symbol with a leading blank: the specification resolves
  \<open>" ETH"\<close> to \<open>ethereum\<close>, the source sends \<open>" eth"\<close> upstream.
\<close>

theorem getCoinGeckoId_trim_counterexample:
  "map ids (snd (snd (getPrice PriceOracle_new (\<lambda>req. Inl (AxiosError [])) 0 0 '' ETH''))) = ['' eth'']
   \<and> resolveSymbol_spec '' ETH'' = ''ethereum''"
proof -
  have "getCoinGeckoId '' ETH'' = '' eth''" by code_simp
  moreover have "toLowerCase '' ETH'' = '' eth''" by code_simp
  moreover have "resolveSymbol_spec '' ETH'' = ''ethereum''" by code_simp
  ultimately show ?thesis
    by (simp add: getPrice_def fetchPriceFromCoinGecko_def PriceOracle_new_def priceRequest_def)
qed


lemma getPrice_miss:
  assumes "\<forall>c. cache oracle (''price_'' @ toLowerCase s) = Some c \<longrightarrow> cacheTTL oracle \<le> tCheck - timestamp c"
  shows "getPrice oracle http tCheck tStore s =
     (case fetchPriceFromCoinGecko oracle http s of
        (Inl e, reqs) \<Rightarrow> (Inl e, oracle, reqs)
      | (Inr p, reqs) \<Rightarrow>
          (Inr p,
           oracle\<lparr>cache := (cache oracle)(''price_'' @ toLowerCase s \<mapsto> \<lparr>price = p, timestamp = tStore\<rparr>)\<rparr>,
           reqs))"
proof (cases "cache oracle (''price_'' @ toLowerCase s)")
  case None
  then show ?thesis by (simp add: getPrice_def split: prod.splits sum.splits)
next
  case (Some c)
  with assms have "\<not> tCheck - timestamp c < cacheTTL oracle" by auto
  with Some show ?thesis by (simp add: getPrice_def split: prod.splits sum.splits)
qed



lemma getProperty_Undefined:
  "(getProperty d k = Undefined) = (d k = None \<and> k \<noteq> ''__proto__'' \<and> k \<notin> set objectPrototypeKeys)"
  by (simp add: getProperty_def split: option.splits)

lemma getPrice_error_unchanged:
  assumes "fst (getPrice oracle http tCheck tStore s) = Inl e"
  shows "fst (snd (getPrice oracle http tCheck tStore s)) = oracle"
  using assms
  by (auto simp add: getPrice_def Let_def split: option.splits if_splits prod.splits sum.splits)

lemma getPrice_fetch_fails:
  assumes "\<forall>c. cache oracle (''price_'' @ toLowerCase s) = Some c \<longrightarrow> cacheTTL oracle \<le> tCheck - timestamp c"
    and "http (priceRequest oracle (getCoinGeckoId s)) = Inl e
         \<or> (\<exists>d. http (priceRequest oracle (getCoinGeckoId s)) = Inr d
                \<and> getProperty d (getCoinGeckoId s) = Undefined \<and> e = TypeError)"
  shows "getPrice oracle http tCheck tStore s = (Inl e, oracle, [priceRequest oracle (getCoinGeckoId s)])"
proof -
  from assms(2) have "fetchPriceFromCoinGecko oracle http s = (Inl e, [priceRequest oracle (getCoinGeckoId s)])"
    by (auto simp add: fetchPriceFromCoinGecko_def Let_def)
  then show ?thesis
    by (simp add: getPrice_miss [OF assms(1)])
qed

text \<open>
  Claim C10, as amended.  When no live entry answers the call and the fetch fails,
  because the request is rejected with \<open>e\<close> or because \<open>response.data[coinId]\<close> is
  \<open>undefined\<close> (a \<open>TypeError\<close>), \<open>getPrice\<close> returns that error, having sent the one
  request, and the oracle, its cache included, is the one it started from; and whenever
  \<open>getPrice\<close> returns an error the oracle is unchanged.  \<open>response.data[coinId]\<close> is
  \<open>undefined\<close> exactly when the answer has no entry for the identifier and the identifier
  is not the name of a member that every object inherits.
\<close>

theorem getPrice_error_atomic:
  "((\<forall>c. cache oracle (''price_'' @ toLowerCase s) = Some c \<longrightarrow> cacheTTL oracle \<le> tCheck - timestamp c)
     \<and> (http (priceRequest oracle (getCoinGeckoId s)) = Inl e
          \<or> (\<exists>d. http (priceRequest oracle (getCoinGeckoId s)) = Inr d
                 \<and> getProperty d (getCoinGeckoId s) = Undefined \<and> e = TypeError))
     \<longrightarrow> getPrice oracle http tCheck tStore s
           = (Inl e, oracle, [priceRequest oracle (getCoinGeckoId s)]))
   \<and> (fst (getPrice oracle http tCheck tStore s) = Inl e \<longrightarrow>
         fst (snd (getPrice oracle http tCheck tStore s)) = oracle)
   \<and> priceRequest oracle coinId =
         \<lparr>url = coingecko (sources oracle) @ ''/simple/price'', ids = coinId,
          vs_currencies = ''usd'', include_24hr_change = True, include_market_cap = True,
          include_24hr_vol = True\<rparr>
   \<and> ((getProperty response_data k = Undefined)
        = (response_data k = None \<and> k \<noteq> ''__proto__'' \<and> k \<notin> set objectPrototypeKeys))"
  using getPrice_fetch_fails [of "oracle" s tCheck http e tStore]
    getPrice_error_unchanged [of "oracle" http tCheck tStore s e]
    getProperty_Undefined [of response_data k]
  by (simp add: priceRequest_def)

text \<open>
  Claim C10 as stated fails for the identifier \<open>constructor\<close>: the answer \<open>{}\<close> carries no
  data for it, yet \<open>response.data["constructor"]\<close> is the inherited function, nothing
  throws, and \<open>getPrice\<close> returns a record of undefined fields and stores it in the cache.
\<close>

theorem getPrice_inherited_counterexample:
  "getCoinGeckoId ''constructor'' = ''constructor''
   \<and> getPrice PriceOracle_new (\<lambda>req. Inr Map.empty) 0 1 ''constructor'' =
       (Inr \<lparr>price_usd = None, change24h = None, marketCap = None, volume24h = None\<rparr>,
        PriceOracle_new\<lparr>cache := [''price_constructor'' \<mapsto>
          \<lparr>price = \<lparr>price_usd = None, change24h = None, marketCap = None, volume24h = None\<rparr>,
           timestamp = 1\<rparr>]\<rparr>,
        [priceRequest PriceOracle_new ''constructor''])"
proof -
  have id: "getCoinGeckoId ''constructor'' = ''constructor''" by code_simp
  have lower: "toLowerCase ''constructor'' = ''constructor''" by code_simp
  have "getProperty Map.empty ''constructor'' = Builtin ''constructor''"
    by (simp add: getProperty_def objectPrototypeKeys_def)
  with id lower show ?thesis
    by (simp add: getPrice_def fetchPriceFromCoinGecko_def Let_def PriceOracle_new_def)
qed

lemma foldl_zip_index:
  assumes "\<forall>i < length xs. cs ! i = f (xs ! i)"
  shows "foldl (\<lambda>prices (symbol, index). setProperty prices symbol (g (cs ! index))) obj
           (zip xs [0..<length xs])
         = foldl (\<lambda>prices symbol. setProperty prices symbol (g (f symbol))) obj xs"
  using assms
proof (induction xs rule: rev_induct)
  case Nil
  show ?case by simp
next
  case (snoc x xs)
  have "\<forall>i < length xs. cs ! i = f (xs ! i)"
  proof (intro allI impI)
    fix i assume "i < length xs"
    with snoc.prems show "cs ! i = f (xs ! i)"
      by (auto simp add: nth_append dest!: spec [of _ i])
  qed
  from snoc.IH [OF this]
  have IH: "foldl (\<lambda>prices (symbol, index). setProperty prices symbol (g (cs ! index))) obj
           (zip xs [0..<length xs])
         = foldl (\<lambda>prices symbol. setProperty prices symbol (g (f symbol))) obj xs" .
  from snoc.prems have last: "cs ! length xs = f x"
    by (auto dest!: spec [of _ "length xs"])
  have "zip (xs @ [x]) [0..<length (xs @ [x])] = zip xs [0..<length xs] @ [(x, length xs)]"
    by simp
  then show ?case
    by (simp only: foldl_append foldl_Cons foldl_Nil IH last prod.case)
qed

lemma properties_foldl:
  "properties (foldl (\<lambda>prices symbol. setProperty prices symbol (h symbol)) obj xs)
     = (\<lambda>k. if k \<in> set xs \<and> k \<noteq> ''__proto__'' then Some (h k) else properties obj k)"
  by (induction xs rule: rev_induct) (auto simp add: fun_eq_iff setProperty_def)

lemma prototype_foldl:
  "prototype (foldl (\<lambda>prices symbol. setProperty prices symbol (h symbol)) obj xs)
     = (if ''__proto__'' \<in> set xs \<and> h ''__proto__'' \<noteq> Undefined then h ''__proto__''
        else prototype obj)"
  by (induction xs rule: rev_induct) (auto simp add: setProperty_def)

lemma proto_id: "getCoinGeckoId ''__proto__'' = ''__proto__''"
  by code_simp

lemma getProperty_proto: "getProperty d ''__proto__'' \<noteq> Undefined"
  by (simp add: getProperty_def split: option.splits)

lemma getBatchPrices_ok:
  assumes "http (batchRequest oracle (map getCoinGeckoId symbols)) = Inr response_data"
  shows "\<exists>result. getBatchPrices oracle http symbols =
            (Inr result, oracle, [batchRequest oracle (map getCoinGeckoId symbols)])
          \<and> properties result =
              (\<lambda>s. if s \<in> set symbols \<and> s \<noteq> ''__proto__''
                   then Some (getProperty response_data (getCoinGeckoId s)) else None)
          \<and> prototype result =
              (if ''__proto__'' \<in> set symbols then getProperty response_data ''__proto__''
               else ObjectPrototype)"
proof -
  let ?result = "foldl (\<lambda>prices symbol. setProperty prices symbol
                     (getProperty response_data (getCoinGeckoId symbol))) emptyObject symbols"
  have "foldl (\<lambda>prices (symbol, index). setProperty prices symbol
              (getProperty response_data (map getCoinGeckoId symbols ! index)))
          emptyObject (zip symbols [0..<length symbols]) = ?result"
    by (rule foldl_zip_index) simp
  with assms have "getBatchPrices oracle http symbols =
            (Inr ?result, oracle, [batchRequest oracle (map getCoinGeckoId symbols)])"
    by (simp add: getBatchPrices_def Let_def)
  moreover have "properties ?result =
              (\<lambda>s. if s \<in> set symbols \<and> s \<noteq> ''__proto__''
                   then Some (getProperty response_data (getCoinGeckoId s)) else None)"
    by (simp add: properties_foldl emptyObject_def fun_eq_iff)
  moreover have "prototype ?result =
              (if ''__proto__'' \<in> set symbols then getProperty response_data ''__proto__''
               else ObjectPrototype)"
    by (simp add: prototype_foldl emptyObject_def proto_id getProperty_proto)
  ultimately show ?thesis by blast
qed

lemma getBatchPrices_one_request:
  "snd (snd (getBatchPrices oracle http symbols)) = [batchRequest oracle (map getCoinGeckoId symbols)]"
  by (simp add: getBatchPrices_def Let_def split: sum.splits)

lemma getCoinGeckoId_case_insensitive:
  assumes "toUpperCase s = toUpperCase t"
  shows "getCoinGeckoId s = getCoinGeckoId t"
proof -
  from assms have "toLowerCase (toUpperCase s) = toLowerCase (toUpperCase t)" by simp
  then have "toLowerCase s = toLowerCase t" by (simp add: toLowerCase_toUpperCase)
  with assms show ?thesis by (simp add: getCoinGeckoId_def split: option.splits)
qed

lemma splitOn_no_sep: "sep \<notin> set x \<Longrightarrow> splitOn sep x = [x]"
  by (induction x) auto

lemma splitOn_append:
  "sep \<notin> set x \<Longrightarrow> splitOn sep (x @ sep # r) = x # splitOn sep r"
  by (induction x) auto

lemma splitOn_join:
  assumes "xs \<noteq> []" "\<forall>x \<in> set xs. sep \<notin> set x"
  shows "splitOn sep (join [sep] xs) = xs"
  using assms
proof (induction xs rule: induct_list012)
  case 1
  then show ?case by simp
next
  case (2 x)
  then show ?case by (simp add: splitOn_no_sep)
next
  case (3 x y zs)
  then have "splitOn sep (join [sep] (y # zs)) = y # zs" by simp
  moreover from 3 have "sep \<notin> set x" by simp
  ultimately show ?case by (simp add: splitOn_append)
qed

lemma batch_example_ids:
  "getCoinGeckoId ''ETH'' = ''ethereum''" "getCoinGeckoId ''eth'' = ''ethereum''"
  "getCoinGeckoId ''USDC'' = ''usd-coin''"
  by code_simp+

lemma batch_example:
  "getBatchPrices PriceOracle_new mockUpstream [''ETH'', ''eth'', ''USDC''] =
         (Inr \<lparr>properties = [''ETH'' \<mapsto> Entry (usdOnly 2000), ''eth'' \<mapsto> Entry (usdOnly 2000),
                               ''USDC'' \<mapsto> Entry (usdOnly 1)],
               prototype = ObjectPrototype\<rparr>,
          PriceOracle_new,
          [\<lparr>url = ''https://api.coingecko.com/api/v3/simple/price'',
            ids = ''ethereum,ethereum,usd-coin'', vs_currencies = ''usd'',
            include_24hr_change = True, include_market_cap = False,
            include_24hr_vol = False\<rparr>])"
  by (simp add: getBatchPrices_def Let_def batch_example_ids mockUpstream_def mockData_def
        batchRequest_def PriceOracle_new_def upt_rec [of 0 3] upt_rec [of 1 3] upt_rec [of 2 3]
        setProperty_def emptyObject_def getProperty_def)

text \<open>
  Claim C5, as amended.  \<open>getBatchPrices\<close> sends exactly one request.  Its \<open>ids\<close>
  parameter is the comma-joined list of the resolved identifiers of the requested
  symbols, in request order and with repetitions; when there is a symbol and no
  identifier holds a comma, the identifiers read back from the request are that list,
  and as a set the distinct resolved identifiers.  When the upstream answers, every
  requested symbol other than \<open>__proto__\<close> is a key of the result, with the value
  \<open>response.data[identifier]\<close>; nothing else is a key, and \<open>__proto__\<close> is never one (the
  assignment to it sets the prototype of the result).  The identifier of an ASCII symbol
  does not depend on its case.  On the specification's example the result is
  \<open>{ETH: {usd: 2000}, eth: {usd: 2000}, USDC: {usd: 1}}\<close>.
\<close>

theorem getBatchPrices_redistributes:
  "(http (batchRequest oracle (map getCoinGeckoId symbols)) = Inr response_data \<longrightarrow>
      (\<exists>result. getBatchPrices oracle http symbols =
            (Inr result, oracle, [batchRequest oracle (map getCoinGeckoId symbols)])
          \<and> properties result =
              (\<lambda>s. if s \<in> set symbols \<and> s \<noteq> ''__proto__''
                   then Some (getProperty response_data (getCoinGeckoId s)) else None)
          \<and> prototype result =
              (if ''__proto__'' \<in> set symbols then getProperty response_data ''__proto__''
               else ObjectPrototype)))
   \<and> snd (snd (getBatchPrices oracle http symbols)) =
         [\<lparr>url = coingecko (sources oracle) @ ''/simple/price'',
           ids = join '','' (map getCoinGeckoId symbols), vs_currencies = ''usd'',
           include_24hr_change = True, include_market_cap = False,
           include_24hr_vol = False\<rparr>]
   \<and> batchRequest oracle coinIds =
         \<lparr>url = coingecko (sources oracle) @ ''/simple/price'',
          ids = join '','' coinIds, vs_currencies = ''usd'',
          include_24hr_change = True, include_market_cap = False,
          include_24hr_vol = False\<rparr>
   \<and> (symbols \<noteq> [] \<and> (\<forall>x \<in> set symbols. CHR '','' \<notin> set (getCoinGeckoId x)) \<longrightarrow>
         map (\<lambda>req. splitOn (CHR '','') (ids req)) (snd (snd (getBatchPrices oracle http symbols)))
           = [map getCoinGeckoId symbols]
         \<and> (\<forall>req \<in> set (snd (snd (getBatchPrices oracle http symbols))).
               set (splitOn (CHR '','') (ids req)) = getCoinGeckoId ` set symbols))
   \<and> (list_all isAscii s \<and> list_all isAscii t \<and> toUpperCase s = toUpperCase t \<longrightarrow>
         getCoinGeckoId s = getCoinGeckoId t)
   \<and> getBatchPrices PriceOracle_new mockUpstream [''ETH'', ''eth'', ''USDC''] =
         (Inr \<lparr>properties = [''ETH'' \<mapsto> Entry (usdOnly 2000), ''eth'' \<mapsto> Entry (usdOnly 2000),
                               ''USDC'' \<mapsto> Entry (usdOnly 1)],
               prototype = ObjectPrototype\<rparr>,
          PriceOracle_new,
          [\<lparr>url = ''https://api.coingecko.com/api/v3/simple/price'',
            ids = ''ethereum,ethereum,usd-coin'', vs_currencies = ''usd'',
            include_24hr_change = True, include_market_cap = False,
            include_24hr_vol = False\<rparr>])"
proof -
  have req: "snd (snd (getBatchPrices oracle http symbols)) =
         [\<lparr>url = coingecko (sources oracle) @ ''/simple/price'',
           ids = join '','' (map getCoinGeckoId symbols), vs_currencies = ''usd'',
           include_24hr_change = True, include_market_cap = False,
           include_24hr_vol = False\<rparr>]"
    by (simp add: getBatchPrices_one_request batchRequest_def)
  have br: "batchRequest oracle coinIds =
         \<lparr>url = coingecko (sources oracle) @ ''/simple/price'',
          ids = join '','' coinIds, vs_currencies = ''usd'',
          include_24hr_change = True, include_market_cap = False,
          include_24hr_vol = False\<rparr>"
    by (simp add: batchRequest_def)
  have split: "symbols \<noteq> [] \<and> (\<forall>x \<in> set symbols. CHR '','' \<notin> set (getCoinGeckoId x)) \<Longrightarrow>
         map (\<lambda>req. splitOn (CHR '','') (ids req)) (snd (snd (getBatchPrices oracle http symbols)))
           = [map getCoinGeckoId symbols]
         \<and> (\<forall>req \<in> set (snd (snd (getBatchPrices oracle http symbols))).
               set (splitOn (CHR '','') (ids req)) = getCoinGeckoId ` set symbols)"
  proof -
    assume a: "symbols \<noteq> [] \<and> (\<forall>x \<in> set symbols. CHR '','' \<notin> set (getCoinGeckoId x))"
    then have "splitOn (CHR '','') (join [CHR '',''] (map getCoinGeckoId symbols))
        = map getCoinGeckoId symbols"
      by (intro splitOn_join) auto
    then show ?thesis by (simp add: req)
  qed
  have ok: "http (batchRequest oracle (map getCoinGeckoId symbols)) = Inr response_data \<Longrightarrow>
      (\<exists>result. getBatchPrices oracle http symbols =
            (Inr result, oracle, [batchRequest oracle (map getCoinGeckoId symbols)])
          \<and> properties result =
              (\<lambda>s. if s \<in> set symbols \<and> s \<noteq> ''__proto__''
                   then Some (getProperty response_data (getCoinGeckoId s)) else None)
          \<and> prototype result =
              (if ''__proto__'' \<in> set symbols then getProperty response_data ''__proto__''
               else ObjectPrototype))"
    by (rule getBatchPrices_ok)
  have ci: "list_all isAscii s \<and> list_all isAscii t \<and> toUpperCase s = toUpperCase t \<Longrightarrow>
         getCoinGeckoId s = getCoinGeckoId t"
    using getCoinGeckoId_case_insensitive [of s t] by simp
  from ok req br split ci batch_example show ?thesis
    by (intro conjI impI) blast+
qed

text \<open>
  Claim C5 as stated fails in two places.  The request for \<open>["ETH", "eth", "USDC"]\<close>
  asks for \<open>ethereum\<close> twice: the identifiers are not made distinct.  And the requested
  symbol \<open>__proto__\<close> is not a key of the result, which stays the empty object.
\<close>

theorem getBatchPrices_distinct_counterexample:
  "snd (snd (getBatchPrices PriceOracle_new mockUpstream [''ETH'', ''eth'', ''USDC''])) =
       [\<lparr>url = ''https://api.coingecko.com/api/v3/simple/price'',
         ids = ''ethereum,ethereum,usd-coin'', vs_currencies = ''usd'',
         include_24hr_change = True, include_market_cap = False,
         include_24hr_vol = False\<rparr>]
   \<and> splitOn (CHR '','') ''ethereum,ethereum,usd-coin'' = [''ethereum'', ''ethereum'', ''usd-coin'']
   \<and> \<not> distinct [''ethereum'', ''ethereum'', ''usd-coin'']
   \<and> getBatchPrices PriceOracle_new mockUpstream [''__proto__''] =
       (Inr \<lparr>properties = Map.empty, prototype = ObjectPrototype\<rparr>, PriceOracle_new,
        [\<lparr>url = ''https://api.coingecko.com/api/v3/simple/price'',
          ids = ''__proto__'', vs_currencies = ''usd'',
          include_24hr_change = True, include_market_cap = False,
          include_24hr_vol = False\<rparr>])"
proof -
  have a: "snd (snd (getBatchPrices PriceOracle_new mockUpstream [''ETH'', ''eth'', ''USDC''])) =
       [\<lparr>url = ''https://api.coingecko.com/api/v3/simple/price'',
         ids = ''ethereum,ethereum,usd-coin'', vs_currencies = ''usd'',
         include_24hr_change = True, include_market_cap = False,
         include_24hr_vol = False\<rparr>]"
    by (simp add: batch_example)
  have b: "splitOn (CHR '','') ''ethereum,ethereum,usd-coin'' = [''ethereum'', ''ethereum'', ''usd-coin'']"
    by simp
  have c: "getBatchPrices PriceOracle_new mockUpstream [''__proto__''] =
       (Inr \<lparr>properties = Map.empty, prototype = ObjectPrototype\<rparr>, PriceOracle_new,
        [\<lparr>url = ''https://api.coingecko.com/api/v3/simple/price'',
          ids = ''__proto__'', vs_currencies = ''usd'',
          include_24hr_change = True, include_market_cap = False,
          include_24hr_vol = False\<rparr>])"
    by (simp add: getBatchPrices_def Let_def proto_id mockUpstream_def mockData_def
          batchRequest_def PriceOracle_new_def setProperty_def emptyObject_def getProperty_def)
  from a b c show ?thesis by simp
qed

text \<open>
  Claim C7.  \<open>getBatchPrices\<close> returns the oracle it was given, and neither its result
  nor the request it sends depends on the cache: with any other cache contents \<open>c\<close>
  both are the same, and one request is sent in every case.
\<close>

theorem getBatchPrices_cache_frame:
  "fst (snd (getBatchPrices oracle http symbols)) = oracle
   \<and> fst (getBatchPrices (oracle\<lparr>cache := c\<rparr>) http symbols) = fst (getBatchPrices oracle http symbols)
   \<and> snd (snd (getBatchPrices (oracle\<lparr>cache := c\<rparr>) http symbols)) =
       snd (snd (getBatchPrices oracle http symbols))
   \<and> length (snd (snd (getBatchPrices oracle http symbols))) = 1"
  by (simp add: getBatchPrices_def Let_def batchRequest_def split: sum.splits)

lemma example_strings:
  "toLowerCase ''ETH'' = ''eth''" "toLowerCase ''eth'' = ''eth''"
  "toLowerCase ''DAI'' = ''dai''" "toLowerCase ''dai'' = ''dai''"
  "getCoinGeckoId ''DAI'' = ''dai''" "getCoinGeckoId ''dai'' = ''dai''"
  "toUpperCase ''Eth'' = ''ETH''" "toUpperCase ''eTH'' = ''ETH''"
  by code_simp+


theorem getPrice_error_atomic_witness:
  "getPrice PriceOracle_new (\<lambda>req. Inl (AxiosError ''timeout'')) 0 1 ''ETH'' =
     (Inl (AxiosError ''timeout''), PriceOracle_new, [priceRequest PriceOracle_new ''ethereum''])
   \<and> getProperty Map.empty ''ethereum'' = Undefined
   \<and> getPrice (PriceOracle_new\<lparr>cache := [''price_eth'' \<mapsto>
        \<lparr>price = \<lparr>price_usd = Some 2000, change24h = None, marketCap = None, volume24h = None\<rparr>,
         timestamp = 1000\<rparr>]\<rparr>) (\<lambda>req. Inr Map.empty) 61000 61001 ''eth'' =
     (Inl TypeError,
      PriceOracle_new\<lparr>cache := [''price_eth'' \<mapsto>
        \<lparr>price = \<lparr>price_usd = Some 2000, change24h = None, marketCap = None, volume24h = None\<rparr>,
         timestamp = 1000\<rparr>]\<rparr>,
      [priceRequest PriceOracle_new ''ethereum''])
   \<and> fst (snd (getPrice (PriceOracle_new\<lparr>cache := [''price_eth'' \<mapsto>
        \<lparr>price = \<lparr>price_usd = Some 2000, change24h = None, marketCap = None, volume24h = None\<rparr>,
         timestamp = 1000\<rparr>]\<rparr>) (\<lambda>req. Inr Map.empty) 61000 61001 ''eth'')) =
      PriceOracle_new\<lparr>cache := [''price_eth'' \<mapsto>
        \<lparr>price = \<lparr>price_usd = Some 2000, change24h = None, marketCap = None, volume24h = None\<rparr>,
         timestamp = 1000\<rparr>]\<rparr>"
proof -
  let ?p = "\<lparr>price_usd = Some 2000, change24h = None, marketCap = None, volume24h = None\<rparr>"
  let ?o1 = "PriceOracle_new\<lparr>cache := [''price_eth'' \<mapsto> \<lparr>price = ?p, timestamp = 1000\<rparr>]\<rparr>"
  have u: "getProperty (Map.empty :: string \<rightharpoonup> coin_data) ''ethereum'' = Undefined"
    by (simp add: getProperty_def objectPrototypeKeys_def)
  have a: "getPrice PriceOracle_new (\<lambda>req. Inl (AxiosError ''timeout'')) 0 1 ''ETH'' =
     (Inl (AxiosError ''timeout''), PriceOracle_new, [priceRequest PriceOracle_new (getCoinGeckoId ''ETH'')])"
    using getPrice_error_atomic [of PriceOracle_new "''ETH''" 0
        "\<lambda>req. Inl (AxiosError ''timeout'')" "AxiosError ''timeout''" 1]
    by (simp add: PriceOracle_new_def)
  have b: "getPrice ?o1 (\<lambda>req. Inr Map.empty) 61000 61001 ''eth'' =
     (Inl TypeError, ?o1, [priceRequest ?o1 (getCoinGeckoId ''eth'')])"
    using getPrice_error_atomic [of ?o1 "''eth''" 61000 "\<lambda>req. Inr Map.empty" TypeError 61001] u
    by (simp add: PriceOracle_new_def example_strings batch_example_ids)
  have c: "priceRequest ?o1 = priceRequest PriceOracle_new"
    by (simp add: priceRequest_def fun_eq_iff)
  from a b c u show ?thesis by (simp add: batch_example_ids)
qed

theorem getBatchPrices_redistributes_witness:
  "mockUpstream (batchRequest PriceOracle_new (map getCoinGeckoId [''DAI'', ''USDC''])) = Inr mockData
   \<and> getBatchPrices PriceOracle_new mockUpstream [''DAI'', ''USDC''] =
       (Inr \<lparr>properties = [''DAI'' \<mapsto> Undefined, ''USDC'' \<mapsto> Entry (usdOnly 1)],
             prototype = ObjectPrototype\<rparr>,
        PriceOracle_new, [batchRequest PriceOracle_new [''dai'', ''usd-coin'']])
   \<and> CHR '','' \<notin> set (getCoinGeckoId ''DAI'') \<and> CHR '','' \<notin> set (getCoinGeckoId ''USDC'')
   \<and> map (\<lambda>req. splitOn (CHR '','') (ids req))
        (snd (snd (getBatchPrices PriceOracle_new mockUpstream [''DAI'', ''USDC''])))
       = [[''dai'', ''usd-coin'']]
   \<and> list_all isAscii ''Eth'' \<and> list_all isAscii ''eTH''
   \<and> toUpperCase ''Eth'' = toUpperCase ''eTH''
   \<and> getCoinGeckoId ''Eth'' = getCoinGeckoId ''eTH''"
proof -
  note inst = getBatchPrices_redistributes [of mockUpstream PriceOracle_new "[''DAI'', ''USDC'']"
      mockData _ "''Eth''" "''eTH''"]
  have up: "mockUpstream (batchRequest PriceOracle_new (map getCoinGeckoId [''DAI'', ''USDC''])) = Inr mockData"
    by (simp add: mockUpstream_def)
  have same: "toUpperCase ''Eth'' = toUpperCase ''eTH''"
    by (simp add: example_strings)
  have ascii: "list_all isAscii ''Eth''" "list_all isAscii ''eTH''"
    by (simp_all add: isAscii_def)
  have nocomma: "CHR '','' \<notin> set (getCoinGeckoId ''DAI'')" "CHR '','' \<notin> set (getCoinGeckoId ''USDC'')"
    by (simp_all add: example_strings batch_example_ids)
  have m: "(\<lambda>s. if s \<in> set [''DAI'', ''USDC''] \<and> s \<noteq> ''__proto__''
                then Some (getProperty mockData (getCoinGeckoId s)) else None)
            = [''DAI'' \<mapsto> Undefined, ''USDC'' \<mapsto> Entry (usdOnly 1)]"
    by (auto simp add: fun_eq_iff example_strings batch_example_ids mockData_def getProperty_def
          objectPrototypeKeys_def)
  from inst up obtain result where
    r: "getBatchPrices PriceOracle_new mockUpstream [''DAI'', ''USDC''] =
          (Inr result, PriceOracle_new,
           [batchRequest PriceOracle_new (map getCoinGeckoId [''DAI'', ''USDC''])])"
    and p: "properties result =
          (\<lambda>s. if s \<in> set [''DAI'', ''USDC''] \<and> s \<noteq> ''__proto__''
                then Some (getProperty mockData (getCoinGeckoId s)) else None)"
    and q: "prototype result =
          (if ''__proto__'' \<in> set [''DAI'', ''USDC''] then getProperty mockData ''__proto__''
           else ObjectPrototype)"
    by blast
  from p q m have "result = \<lparr>properties = [''DAI'' \<mapsto> Undefined, ''USDC'' \<mapsto> Entry (usdOnly 1)],
             prototype = ObjectPrototype\<rparr>"
    by (cases result) simp
  with r have res: "getBatchPrices PriceOracle_new mockUpstream [''DAI'', ''USDC''] =
       (Inr \<lparr>properties = [''DAI'' \<mapsto> Undefined, ''USDC'' \<mapsto> Entry (usdOnly 1)],
             prototype = ObjectPrototype\<rparr>,
        PriceOracle_new, [batchRequest PriceOracle_new [''dai'', ''usd-coin'']])"
    by (simp add: example_strings batch_example_ids)
  from inst nocomma have sp: "map (\<lambda>req. splitOn (CHR '','') (ids req))
        (snd (snd (getBatchPrices PriceOracle_new mockUpstream [''DAI'', ''USDC''])))
       = [[''dai'', ''usd-coin'']]"
    by (simp add: example_strings batch_example_ids)
  from inst ascii same have ci: "getCoinGeckoId ''Eth'' = getCoinGeckoId ''eTH''"
    by blast
  from up res nocomma sp ascii same ci show ?thesis by blast
qed


section \<open>Verified properties of the price conversion\<close>

declare toDecimal.simps [simp del]

lemma digit_cases:
  assumes "d < (10::nat)"
  shows "d = 0 \<or> d = 1 \<or> d = 2 \<or> d = 3 \<or> d = 4 \<or> d = 5 \<or> d = 6 \<or> d = 7 \<or> d = 8 \<or> d = 9"
  using assms by arith

lemma digitVal_digitChar: "d < 10 \<Longrightarrow> digitVal (digitChar d) = d"
  using digit_cases [of d] by (auto simp add: digitVal_def digitChar_def)

lemma digitChar_not_dot: "d < 10 \<Longrightarrow> digitChar d \<noteq> CHR ''.''"
  using digit_cases [of d] by (auto simp add: digitChar_def)

lemma digitChar_not_minus: "d < 10 \<Longrightarrow> digitChar d \<noteq> CHR ''-''"
  using digit_cases [of d] by (auto simp add: digitChar_def)

lemma readDecimal_snoc: "readDecimal (xs @ [c]) = 10 * readDecimal xs + digitVal c"
  by (simp add: readDecimal_def)

lemma readDecimal_Nil: "readDecimal [] = 0"
  by (simp add: readDecimal_def)

lemma readDecimal_append:
  "readDecimal (xs @ ys) = readDecimal xs * 10 ^ length ys + readDecimal ys"
proof (induction ys rule: rev_induct)
  case Nil
  show ?case by (simp add: readDecimal_Nil)
next
  case (snoc y ys)
  have "readDecimal (xs @ ys @ [y]) = 10 * readDecimal (xs @ ys) + digitVal y"
    using readDecimal_snoc [of "xs @ ys" y] by simp
  also have "\<dots> = 10 * (readDecimal xs * 10 ^ length ys + readDecimal ys) + digitVal y"
    by (simp add: snoc.IH)
  also have "\<dots> = readDecimal xs * 10 ^ length (ys @ [y]) + readDecimal (ys @ [y])"
    by (simp add: readDecimal_snoc algebra_simps)
  finally show ?case by simp
qed

lemma readDecimal_toDecimal: "readDecimal (toDecimal n) = n"
proof (induction n rule: toDecimal.induct)
  case (1 n)
  show ?case
  proof (cases "n < 10")
    case True
    then show ?thesis
      by (subst toDecimal.simps) (simp add: readDecimal_def digitVal_digitChar)
  next
    case False
    with 1 have IH: "readDecimal (toDecimal (n div 10)) = n div 10" by simp
    have "readDecimal (toDecimal n) = 10 * readDecimal (toDecimal (n div 10)) + digitVal (digitChar (n mod 10))"
      using False by (subst toDecimal.simps) (simp add: readDecimal_snoc)
    also have "\<dots> = 10 * (n div 10) + n mod 10"
      by (simp add: IH digitVal_digitChar)
    finally show ?thesis by simp
  qed
qed

lemma toDecimal_digits: "c \<in> set (toDecimal n) \<Longrightarrow> c \<noteq> CHR ''.'' \<and> c \<noteq> CHR ''-''"
proof (induction n rule: toDecimal.induct)
  case (1 n)
  show ?case
  proof (cases "n < 10")
    case True
    with "1.prems" show ?thesis
      by (subst (asm) toDecimal.simps) (simp add: digitChar_not_dot digitChar_not_minus)
  next
    case False
    with "1.prems" have "c \<in> set (toDecimal (n div 10)) \<or> c = digitChar (n mod 10)"
      by (subst (asm) toDecimal.simps) auto
    then show ?thesis
    proof
      assume "c \<in> set (toDecimal (n div 10))"
      with 1 False show ?thesis by simp
    next
      assume "c = digitChar (n mod 10)"
      then show ?thesis by (simp add: digitChar_not_dot digitChar_not_minus)
    qed
  qed
qed

lemma toDecimal_nonempty: "toDecimal n \<noteq> []"
  by (subst toDecimal.simps) simp

lemma length_toDecimal: "n < 10 ^ k \<Longrightarrow> 0 < k \<Longrightarrow> length (toDecimal n) \<le> k"
proof (induction n arbitrary: k rule: toDecimal.induct)
  case (1 n)
  show ?case
  proof (cases "n < 10")
    case True
    with "1.prems" show ?thesis by (subst toDecimal.simps) simp
  next
    case False
    obtain j where k: "k = Suc j" using "1.prems"(2) by (cases k) auto
    from False "1.prems"(1) k have "0 < j" by (cases j) auto
    moreover from "1.prems"(1) k have "n div 10 < 10 ^ j"
      by (simp add: less_mult_imp_div_less mult.commute)
    ultimately have "length (toDecimal (n div 10)) \<le> j"
      using "1.IH" [OF False] by simp
    with False k show ?thesis by (subst toDecimal.simps) simp
  qed
qed

lemma readDecimal_zeros: "readDecimal (replicate k (CHR ''0'')) = 0"
proof (induction k)
  case 0
  show ?case by (simp add: readDecimal_Nil)
next
  case (Suc k)
  have "replicate (Suc k) (CHR ''0'') = replicate k (CHR ''0'') @ [CHR ''0'']"
    by (simp add: replicate_append_same)
  then have "readDecimal (replicate (Suc k) (CHR ''0'')) = 10 * readDecimal (replicate k (CHR ''0'')) + digitVal (CHR ''0'')"
    by (simp only: readDecimal_snoc)
  with Suc show ?case by (simp add: digitVal_def)
qed

lemma readDecimal_padZeros: "readDecimal (padZeros k s) = readDecimal s"
  by (simp add: padZeros_def readDecimal_append readDecimal_zeros)

lemma length_padZeros: "length s \<le> k \<Longrightarrow> length (padZeros k s) = k"
  by (simp add: padZeros_def)

lemma dropWhile_zeros_split:
  "\<exists>j. f = rev (dropWhile (\<lambda>c. c = CHR ''0'') (rev f)) @ replicate j (CHR ''0'')"
proof -
  have "rev f = takeWhile (\<lambda>c. c = CHR ''0'') (rev f) @ dropWhile (\<lambda>c. c = CHR ''0'') (rev f)"
    by simp
  moreover have "takeWhile (\<lambda>c. c = CHR ''0'') (rev f)
      = replicate (length (takeWhile (\<lambda>c. c = CHR ''0'') (rev f))) (CHR ''0'')"
    by (rule replicate_length_same [symmetric]) (auto dest: set_takeWhileD)
  ultimately have "rev f = replicate (length (takeWhile (\<lambda>c. c = CHR ''0'') (rev f))) (CHR ''0'')
      @ dropWhile (\<lambda>c. c = CHR ''0'') (rev f)"
    by simp
  then have "f = rev (dropWhile (\<lambda>c. c = CHR ''0'') (rev f))
      @ replicate (length (takeWhile (\<lambda>c. c = CHR ''0'') (rev f))) (CHR ''0'')"
    by (metis rev_append rev_replicate rev_rev_ident)
  then show ?thesis ..
qed

lemma stripZeros_value:
  "(of_nat (readDecimal (stripZeros f)) :: rat) / 10 ^ length (stripZeros f)
     = of_nat (readDecimal f) / 10 ^ length f"
proof -
  let ?kept = "rev (dropWhile (\<lambda>c. c = CHR ''0'') (rev f))"
  obtain j where f: "f = ?kept @ replicate j (CHR ''0'')"
    using dropWhile_zeros_split [of f] ..
  have rd: "readDecimal f = readDecimal ?kept * 10 ^ j"
    by (subst f) (simp add: readDecimal_append readDecimal_zeros)
  have len: "length f = length ?kept + j"
    by (subst f) simp
  show ?thesis
  proof (cases "?kept = []")
    case True
    with rd have "readDecimal f = 0" by (simp add: readDecimal_Nil)
    moreover from True have "stripZeros f = ''0''" by (simp add: stripZeros_def)
    ultimately show ?thesis by (simp add: readDecimal_def digitVal_def)
  next
    case False
    have "stripZeros f = ?kept"
      unfolding stripZeros_def Let_def by (rule if_not_P [OF False])
    then show ?thesis by (simp add: rd len power_add)
  qed
qed

lemma getMultiplier_ok:
  "0 \<le> d \<Longrightarrow> d \<le> 256 \<Longrightarrow> getMultiplier d = Inr (CHR ''1'' # replicate (nat d) (CHR ''0''))"
  by (simp add: getMultiplier_def)

lemma formatFixed_nonneg:
  assumes "0 \<le> v" "0 \<le> d" "d \<le> 256"
  shows "formatFixed v d =
     Inr (if d = 0 then toDecimal (nat v div 10 ^ nat d)
          else toDecimal (nat v div 10 ^ nat d) @ ''.'' @
               stripZeros (padZeros (nat d) (toDecimal (nat v mod 10 ^ nat d))))"
  using assms by (simp add: formatFixed_def getMultiplier_ok Let_def)

lemma takeWhile_no_dot:
  assumes "\<And>c. c \<in> set w \<Longrightarrow> c \<noteq> CHR ''.''"
  shows "takeWhile (\<lambda>c. c \<noteq> CHR ''.'') (w @ CHR ''.'' # r) = w"
    and "dropWhile (\<lambda>c. c \<noteq> CHR ''.'') (w @ CHR ''.'' # r) = CHR ''.'' # r"
    and "takeWhile (\<lambda>c. c \<noteq> CHR ''.'') w = w"
    and "dropWhile (\<lambda>c. c \<noteq> CHR ''.'') w = []"
  using assms by (simp_all add: takeWhile_append2 dropWhile_append2)

lemma take1_toDecimal: "take 1 (toDecimal n @ r) \<noteq> ''-''"
proof -
  obtain c cs where eq: "toDecimal n = c # cs"
    using toDecimal_nonempty [of n] by (cases "toDecimal n") auto
  then have "c \<in> set (toDecimal n)" by simp
  then have "c \<noteq> CHR ''-''" using toDecimal_digits by blast
  with eq show ?thesis by simp
qed

lemma div_mod_rat:
  assumes "0 < (m::nat)"
  shows "(of_nat (u div m) :: rat) + of_nat (u mod m) / of_nat m = of_nat u / of_nat m"
proof -
  have "(of_nat u :: rat) = of_nat (u div m) * of_nat m + of_nat (u mod m)"
    by (metis div_mult_mod_eq of_nat_add of_nat_mult)
  with assms show ?thesis by (simp add: field_simps)
qed

lemma decimalValue_formatFixed:
  assumes "0 \<le> v" "0 \<le> d" "d \<le> 256"
  shows "\<exists>s. formatFixed v d = Inr s \<and> decimalValue s = of_int v / 10 ^ nat d"
proof (cases "d = 0")
  case True
  with assms have f: "formatFixed v d = Inr (toDecimal (nat v))"
    by (simp add: formatFixed_nonneg)
  have nodot: "\<And>c. c \<in> set (toDecimal (nat v)) \<Longrightarrow> c \<noteq> CHR ''.''"
    using toDecimal_digits by blast
  have "take 1 (toDecimal (nat v)) \<noteq> ''-''"
    using take1_toDecimal [of "nat v" "[]"] by simp
  then have "decimalValue (toDecimal (nat v)) = of_nat (nat v)"
    by (simp add: decimalValue_def Let_def takeWhile_no_dot(3,4) [OF nodot]
          readDecimal_toDecimal readDecimal_Nil)
  with f True assms show ?thesis by simp
next
  case False
  let ?m = "(10::nat) ^ nat d"
  let ?w = "toDecimal (nat v div ?m)"
  let ?f = "stripZeros (padZeros (nat d) (toDecimal (nat v mod ?m)))"
  from False assms have f: "formatFixed v d = Inr (?w @ CHR ''.'' # ?f)"
    by (simp add: formatFixed_nonneg)
  have nodot: "\<And>c. c \<in> set ?w \<Longrightarrow> c \<noteq> CHR ''.''"
    using toDecimal_digits by blast
  have neg: "take 1 (?w @ CHR ''.'' # ?f) \<noteq> ''-''"
    by (rule take1_toDecimal)
  have dpos: "0 < nat d" using False assms by simp
  have "nat v mod ?m < ?m" by simp
  then have "length (toDecimal (nat v mod ?m)) \<le> nat d"
    using dpos by (rule length_toDecimal)
  then have len: "length (padZeros (nat d) (toDecimal (nat v mod ?m))) = nat d"
    by (rule length_padZeros)
  have "(of_nat (readDecimal ?f) :: rat) / 10 ^ length ?f
      = of_nat (readDecimal (padZeros (nat d) (toDecimal (nat v mod ?m)))) / 10 ^ nat d"
    using stripZeros_value [of "padZeros (nat d) (toDecimal (nat v mod ?m))"] len by simp
  also have "\<dots> = of_nat (nat v mod ?m) / of_nat ?m"
    by (simp add: readDecimal_padZeros readDecimal_toDecimal)
  finally have frac: "(of_nat (readDecimal ?f) :: rat) / 10 ^ length ?f = of_nat (nat v mod ?m) / of_nat ?m" .
  have "decimalValue (?w @ CHR ''.'' # ?f)
      = of_nat (readDecimal ?w) + of_nat (readDecimal ?f) / 10 ^ length ?f"
    using neg by (simp add: decimalValue_def Let_def takeWhile_no_dot(1,2) [OF nodot])
  also have "\<dots> = of_nat (nat v div ?m) + of_nat (nat v mod ?m) / of_nat ?m"
    by (simp only: frac readDecimal_toDecimal)
  also have "\<dots> = of_nat (nat v) / of_nat ?m"
    by (rule div_mod_rat) simp
  finally have "decimalValue (?w @ CHR ''.'' # ?f) = of_int v / 10 ^ nat d"
    using assms by simp
  with f show ?thesis by simp
qed

lemma bn_pow_ok:
  "0 \<le> n \<Longrightarrow> n < MAX_SAFE \<Longrightarrow> bn_pow b n = Inr (b ^ nat n)"
  by (simp add: bn_pow_def BigNumber_from_def MAX_SAFE_def)

lemma bn_div_nonneg:
  "0 \<le> a \<Longrightarrow> 0 < b \<Longrightarrow> bn_div a b = Inr (a div b)"
  by (cases "a = 0") (simp_all add: bn_div_def)

lemma adjustedPrice_nonneg: "0 \<le> adjustedPrice s d0 d1"
  by (simp add: adjustedPrice_def pos_imp_zdiv_nonneg_iff)

lemma calculatePrice_format:
  assumes "0 \<le> d0" "d0 < MAX_SAFE" "0 \<le> d1" "d1 \<le> 256"
  shows "calculatePrice s d0 d1 = formatFixed (adjustedPrice s d0 d1) d1"
proof -
  have q: "bn_pow 2 96 = Inr (2 ^ 96)"
    using bn_pow_ok [of 96 2] by (simp add: MAX_SAFE_def)
  have p: "bn_div (bn_mul (uint s) (uint s)) (2 ^ 96) = Inr (uint s * uint s div 2 ^ 96)"
    by (simp add: bn_div_nonneg bn_mul_def)
  from assms have d1: "d1 < MAX_SAFE" by (simp add: MAX_SAFE_def)
  have a: "bn_div (bn_mul (uint s * uint s div 2 ^ 96) (10 ^ nat d0)) (10 ^ nat d1)
             = Inr (adjustedPrice s d0 d1)"
    by (simp add: bn_div_nonneg bn_mul_def adjustedPrice_def pos_imp_zdiv_nonneg_iff)
  show ?thesis
    by (simp only: calculatePrice_def q p a bn_pow_ok [OF assms(1,2)] bn_pow_ok [OF assms(3) d1]
          sum.case formatUnits_def)
qed

lemma calculatePrice_value:
  assumes "0 \<le> d0" "d0 < MAX_SAFE" "0 \<le> d1" "d1 \<le> 256"
  shows "\<exists>p. calculatePrice s d0 d1 = Inr p
             \<and> decimalValue p = of_int (adjustedPrice s d0 d1) / 10 ^ nat d1"
  using decimalValue_formatFixed [OF adjustedPrice_nonneg assms(3,4), of s d0]
  by (simp add: calculatePrice_format [OF assms])

lemma adjustedPrice_mono:
  assumes "s1 \<le> s2"
  shows "adjustedPrice s1 d0 d1 \<le> adjustedPrice s2 d0 d1"
proof -
  from assms have "uint s1 \<le> uint s2" by (simp add: word_le_def)
  then have "uint s1 * uint s1 \<le> uint s2 * uint s2"
    by (intro mult_mono) simp_all
  then have "uint s1 * uint s1 div 2 ^ 96 \<le> uint s2 * uint s2 div 2 ^ 96"
    by (intro zdiv_mono1) simp_all
  then have "(uint s1 * uint s1 div 2 ^ 96) * 10 ^ nat d0 \<le> (uint s2 * uint s2 div 2 ^ 96) * 10 ^ nat d0"
    by (intro mult_right_mono) simp_all
  then show ?thesis
    unfolding adjustedPrice_def by (intro zdiv_mono1) simp_all
qed

text \<open>
  Claim C8, as amended.  For decimals with which the conversion returns
  (\<open>0 \<le> token0Decimals < 2^53 - 1\<close>, \<open>0 \<le> token1Decimals \<le> 256\<close>), \<open>calculatePrice\<close>
  returns for \<open>s1 \<le> s2\<close> two prices, and the price for \<open>s1\<close> is at most the price for
  \<open>s2\<close>: the conversion is monotonically non-decreasing.
\<close>

theorem calculatePrice_monotone:
  assumes "0 \<le> d0" "d0 < MAX_SAFE" "0 \<le> d1" "d1 \<le> 256" "s1 \<le> s2"
  shows "\<exists>p1 p2. calculatePrice s1 d0 d1 = Inr p1 \<and> calculatePrice s2 d0 d1 = Inr p2
                 \<and> decimalValue p1 \<le> decimalValue p2"
proof -
  obtain p1 where p1: "calculatePrice s1 d0 d1 = Inr p1"
      "decimalValue p1 = of_int (adjustedPrice s1 d0 d1) / 10 ^ nat d1"
    using calculatePrice_value [OF assms(1-4), of s1] by blast
  obtain p2 where p2: "calculatePrice s2 d0 d1 = Inr p2"
      "decimalValue p2 = of_int (adjustedPrice s2 d0 d1) / 10 ^ nat d1"
    using calculatePrice_value [OF assms(1-4), of s2] by blast
  have "(of_int (adjustedPrice s1 d0 d1) :: rat) \<le> of_int (adjustedPrice s2 d0 d1)"
    using adjustedPrice_mono [OF assms(5)] by simp
  then have "decimalValue p1 \<le> decimalValue p2"
    by (simp add: p1(2) p2(2) divide_right_mono)
  with p1(1) p2(1) show ?thesis by blast
qed

lemma toDecimal_small: "toDecimal 0 = ''0''"
  by (simp add: toDecimal.simps digitChar_def)

lemma calculatePrice_18_18:
  "calculatePrice s 18 18 = formatFixed (adjustedPrice s 18 18) 18"
  by (rule calculatePrice_format) (simp_all add: MAX_SAFE_def)

lemma stripZeros_examples:
  "stripZeros ''000000000000000000'' = ''0''"
  "stripZeros ''264337593543950336'' = ''264337593543950336''"
  by (simp_all add: stripZeros_def)

lemma padZeros_examples:
  "padZeros 18 ''0'' = ''000000000000000000''"
  "padZeros 18 ''264337593543950336'' = ''264337593543950336''"
  by (simp_all add: padZeros_def eval_nat_numeral)

lemma toDecimal_examples:
  "toDecimal 79228162514 = ''79228162514''"
  "toDecimal 264337593543950336 = ''264337593543950336''"
  by (simp_all add: toDecimal.simps digitChar_def)

text \<open>
  Claim C8 as stated asks for a strictly greater price.  The integer division by
  \<open>2^96\<close> maps the square roots 0 and 1 to the same price \<open>0.0\<close>.
\<close>

theorem calculatePrice_strict_counterexample:
  "(0::160 word) < 1 \<and> calculatePrice 0 18 18 = Inr ''0.0'' \<and> calculatePrice 1 18 18 = Inr ''0.0''
   \<and> \<not> decimalValue ''0.0'' < decimalValue ''0.0''"
proof -
  have a0: "adjustedPrice 0 18 18 = 0" by (simp add: adjustedPrice_def)
  have a1: "adjustedPrice 1 18 18 = 0" by (simp add: adjustedPrice_def)
  have f: "formatFixed 0 18 = Inr ''0.0''"
    by (simp add: formatFixed_nonneg toDecimal_small padZeros_examples stripZeros_examples)
  show ?thesis by (simp add: calculatePrice_18_18 a0 a1 f)
qed

text \<open>
  Claim C1 at its example.  For \<open>sqrtPriceX96 = 2^96\<close> and 18 decimals on both sides the
  source returns \<open>79228162514.264337593543950336\<close>, that is \<open>2^96 / 10^18\<close>, where the
  claim has \<open>1.0\<close>: the square is divided by \<open>2^96\<close> once, not by \<open>2^192\<close>.
\<close>

theorem calculatePrice_unit_sqrtPrice:
  "calculatePrice (2 ^ 96) 18 18 = Inr ''79228162514.264337593543950336''
   \<and> decimalValue ''79228162514.264337593543950336'' = 79228162514264337593543950336 / 10 ^ 18
   \<and> decimalValue ''79228162514.264337593543950336'' \<noteq> 1"
proof -
  have a: "adjustedPrice (2 ^ 96) 18 18 = 79228162514264337593543950336"
    by (simp add: adjustedPrice_def)
  have f: "formatFixed 79228162514264337593543950336 18 = Inr ''79228162514.264337593543950336''"
    by (simp add: formatFixed_nonneg toDecimal_examples padZeros_examples stripZeros_examples)
  have v: "decimalValue ''79228162514.264337593543950336'' = 79228162514264337593543950336 / 10 ^ 18"
    by (simp add: decimalValue_def readDecimal_def digitVal_def Let_def)
  from a f v show ?thesis by (simp add: calculatePrice_18_18)
qed

theorem calculatePrice_monotone_witness:
  "(0::int) \<le> 18 \<and> (18::int) < MAX_SAFE \<and> (18::int) \<le> 256 \<and> (1 :: 160 word) \<le> 2 ^ 96
   \<and> (\<exists>p1 p2. calculatePrice 1 18 18 = Inr p1 \<and> calculatePrice (2 ^ 96) 18 18 = Inr p2
          \<and> decimalValue p1 \<le> decimalValue p2)"
proof -
  have h: "(0::int) \<le> 18" "(18::int) < MAX_SAFE" "(18::int) \<le> 256" "(1 :: 160 word) \<le> 2 ^ 96"
    by (simp_all add: MAX_SAFE_def word_le_def)
  from calculatePrice_monotone [OF h(1) h(2) h(1) h(3) h(4)] h show ?thesis by blast
qed


section \<open>Verified properties of the pool address\<close>

lemma toBytes_numeral:
  "toBytes (numeral k) v = toBytes (pred_numeral k) (v div 256) @ [v mod 256]"
  by (simp only: numeral_eq_Suc toBytes.simps)

lemma mock_hash: "arrayify32 (keccak256 mockCrypto bs) =
   [8,0,0,0,0,128,0,0,0,8,128,0,0,0,0,0,0,0,128,0,0,0,0,0,0,0,0,0,0,0,0,0]"
  by (simp add: arrayify32_def mockCrypto_def toBytes_numeral)


lemma ex_lower: "toLowerCase ''0x1F98431c8aD98523631AE4a59f267346ea31F984'' = ''0x1f98431c8ad98523631ae4a59f267346ea31f984''"
  by code_simp

lemma ex_match: "matchesHexAddress ''0x1F98431c8aD98523631AE4a59f267346ea31F984''"
  by code_simp

lemma ex_hs: "isHexString20 ''0x1F98431c8aD98523631AE4a59f267346ea31F984''"
  by code_simp

lemma toUpperChar_hex:
  "toUpperChar (CHR ''0'') = CHR ''0''"
  "toUpperChar (CHR ''1'') = CHR ''1''"
  "toUpperChar (CHR ''2'') = CHR ''2''"
  "toUpperChar (CHR ''3'') = CHR ''3''"
  "toUpperChar (CHR ''4'') = CHR ''4''"
  "toUpperChar (CHR ''5'') = CHR ''5''"
  "toUpperChar (CHR ''6'') = CHR ''6''"
  "toUpperChar (CHR ''7'') = CHR ''7''"
  "toUpperChar (CHR ''8'') = CHR ''8''"
  "toUpperChar (CHR ''9'') = CHR ''9''"
  "toUpperChar (CHR ''a'') = CHR ''A''"
  "toUpperChar (CHR ''b'') = CHR ''B''"
  "toUpperChar (CHR ''c'') = CHR ''C''"
  "toUpperChar (CHR ''d'') = CHR ''D''"
  "toUpperChar (CHR ''e'') = CHR ''E''"
  "toUpperChar (CHR ''f'') = CHR ''F''"
  by code_simp+

lemma ex_factory: "getAddress mockCrypto factoryAddress = Inr factoryAddress"
  by (simp add: getAddress_def factoryAddress_def ex_match getChecksumAddress_def
     ex_hs Let_def mock_hash ex_lower toUpperChar_hex)

lemma ex_tokens:
  "matchesHexAddress ''0xdac17f958d2ee523a2206206994597c13d831ec7''"
  "matchesHexAddress ''0x6B175474E89094C44DA98B954EEDEAC495271D0F''"
  "isHexString20 ''0xdac17f958d2ee523a2206206994597c13d831ec7''"
  "isHexString20 ''0x6B175474E89094C44DA98B954EEDEAC495271D0F''"
  "hasMixedCase ''0xdac17f958d2ee523a2206206994597c13d831ec7'' = False"
  "hasMixedCase ''0x6B175474E89094C44DA98B954EEDEAC495271D0F'' = False"
  "toLowerCase ''0xdac17f958d2ee523a2206206994597c13d831ec7'' = ''0xdac17f958d2ee523a2206206994597c13d831ec7''"
  "toLowerCase ''0x6B175474E89094C44DA98B954EEDEAC495271D0F'' = ''0x6b175474e89094c44da98b954eedeac495271d0f''"
  by code_simp+

lemma ex_usdt: "getAddress mockCrypto ''0xdac17f958d2ee523a2206206994597c13d831ec7'' = Inr ''0xdAc17f958d2ee523a2206206994597c13d831ec7''"
  by (simp add: getAddress_def ex_tokens getChecksumAddress_def Let_def mock_hash toUpperChar_hex)

lemma ex_dai: "getAddress mockCrypto ''0x6B175474E89094C44DA98B954EEDEAC495271D0F'' = Inr ''0x6B175474e89094c44da98b954eedeac495271d0f''"
  by (simp add: getAddress_def ex_tokens getChecksumAddress_def Let_def mock_hash toUpperChar_hex)

lemma length_toLowerCase: "length (toLowerCase a) = length a"
  by (simp add: toLowerCase_def)

lemma x_not_hex: "\<not> isHexDigit (CHR ''x'')"
  by (simp add: isHexDigit_def isDigit_def isUpperHex_def isLowerHex_def)

lemma hex40_no_prefix:
  assumes "length a = 40" "list_all isHexDigit a"
  shows "take 2 a \<noteq> ''0x''"
proof
  assume t: "take 2 a = ''0x''"
  from assms(1) obtain c0 c1 r where a: "a = c0 # c1 # r"
    by (cases a; cases "tl a") auto
  with t have "c1 = CHR ''x''" by simp
  with a assms(2) show False by (simp add: x_not_hex)
qed

lemma withPrefix_cases:
  assumes "matchesHexAddress a"
  shows "(length a = 40 \<and> withPrefix a = ''0x'' @ a) \<or> (length a = 42 \<and> withPrefix a = a)"
  using assms hex40_no_prefix [of a]
  by (auto simp add: matchesHexAddress_def withPrefix_def)

lemma toLowerCase_withPrefix:
  assumes "matchesHexAddress a" "matchesHexAddress b" "toLowerCase a = toLowerCase b"
  shows "toLowerCase (withPrefix a) = toLowerCase (withPrefix b)"
proof -
  from assms(3) have len: "length a = length b"
    using length_toLowerCase [of a] length_toLowerCase [of b] by simp
  from withPrefix_cases [OF assms(1)] withPrefix_cases [OF assms(2)] len assms(3)
  show ?thesis by (auto simp add: toLowerCase_def)
qed

lemma isHexString20_withPrefix:
  assumes "matchesHexAddress a"
  shows "isHexString20 (withPrefix a)"
  using withPrefix_cases [OF assms] assms
  by (auto simp add: matchesHexAddress_def isHexString20_def)

lemma getAddress_hex_cases:
  assumes "matchesHexAddress a"
  shows "getAddress L a = Inl BadAddressChecksum \<or> getAddress L a = Inr (checksumOf L (withPrefix a))"
proof -
  have "getChecksumAddress L (withPrefix a) = Inr (checksumOf L (withPrefix a))"
    using isHexString20_withPrefix [OF assms]
    by (simp add: getChecksumAddress_def checksumOf_def Let_def)
  with assms show ?thesis
    by (simp add: getAddress_def withPrefix_def Let_def)
qed

lemma encodeAddress_hex_cases:
  assumes "matchesHexAddress a"
  shows "encodeAddress L a = Inl BadAddressChecksum
       \<or> encodeAddress L a = Inr (replicate 12 0 @ hexToBytes (drop 2 (checksumOf L (withPrefix a))))"
  using getAddress_hex_cases [OF assms, of L]
  by (auto simp add: encodeAddress_def)

lemma abiEncode_swap_hex:
  assumes "matchesHexAddress a" "matchesHexAddress b" "toLowerCase a = toLowerCase b"
  shows "abiEncode L a b feeTier = abiEncode L b a feeTier"
proof -
  have same: "checksumOf L (withPrefix a) = checksumOf L (withPrefix b)"
    by (simp add: checksumOf_def toLowerCase_withPrefix [OF assms])
  from encodeAddress_hex_cases [OF assms(1), of L] encodeAddress_hex_cases [OF assms(2), of L] same
  show ?thesis
    by (auto simp add: abiEncode_def split: sum.splits)
qed

lemma computePoolAddress_swap_hex:
  assumes "matchesHexAddress a" "matchesHexAddress b"
  shows "computePoolAddress L (Some a) (Some b) feeTier = computePoolAddress L (Some b) (Some a) feeTier"
proof -
  consider (lt) "toLowerCase a < toLowerCase b" | (gt) "toLowerCase b < toLowerCase a"
    | (eq) "toLowerCase a = toLowerCase b"
    by (rule linorder_cases)
  then show ?thesis
  proof cases
    case lt
    then have "\<not> toLowerCase b < toLowerCase a" by simp
    with lt show ?thesis by (simp add: computePoolAddress_def)
  next
    case gt
    then have "\<not> toLowerCase a < toLowerCase b" by simp
    with gt show ?thesis by (simp add: computePoolAddress_def)
  next
    case eq
    have "abiEncode L b a feeTier = abiEncode L a b feeTier"
      using abiEncode_swap_hex [OF assms eq, of L feeTier] by simp
    with eq show ?thesis by (simp add: computePoolAddress_def)
  qed
qed

lemma length_toBytes: "length (toBytes n v) = n"
  by (induction n arbitrary: v) simp_all

lemma toBytes_bound: "b \<in> set (toBytes n v) \<Longrightarrow> b < 256"
  by (induction n arbitrary: v) auto

lemma hexChar_lower:
  assumes "d < 16"
  shows "isHexDigit (hexChar d) \<and> \<not> isUpperHex (hexChar d)"
proof -
  from assms have "d = 0 \<or> d = 1 \<or> d = 2 \<or> d = 3 \<or> d = 4 \<or> d = 5 \<or> d = 6 \<or> d = 7
      \<or> d = 8 \<or> d = 9 \<or> d = 10 \<or> d = 11 \<or> d = 12 \<or> d = 13 \<or> d = 14 \<or> d = 15"
    by arith
  then show ?thesis
    by (auto simp add: hexChar_def isHexDigit_def isDigit_def isUpperHex_def isLowerHex_def)
qed

lemma hexlify_body:
  assumes "\<And>b. b \<in> set bs \<Longrightarrow> b < 256"
  shows "list_all isHexDigit (concat (map (\<lambda>b. [hexChar (b div 16), hexChar (b mod 16)]) bs))
       \<and> \<not> list_ex isUpperHex (concat (map (\<lambda>b. [hexChar (b div 16), hexChar (b mod 16)]) bs))
       \<and> length (concat (map (\<lambda>b. [hexChar (b div 16), hexChar (b mod 16)]) bs)) = 2 * length bs"
  using assms
proof (induction bs)
  case Nil
  show ?case by simp
next
  case (Cons b bs)
  from Cons.prems have "b < 256" by simp
  then have "b div 16 < 16" "b mod 16 < 16" by simp_all
  then have "isHexDigit (hexChar (b div 16))" "\<not> isUpperHex (hexChar (b div 16))"
      "isHexDigit (hexChar (b mod 16))" "\<not> isUpperHex (hexChar (b mod 16))"
    using hexChar_lower by blast+
  moreover from Cons have "list_all isHexDigit (concat (map (\<lambda>b. [hexChar (b div 16), hexChar (b mod 16)]) bs))
       \<and> \<not> list_ex isUpperHex (concat (map (\<lambda>b. [hexChar (b div 16), hexChar (b mod 16)]) bs))
       \<and> length (concat (map (\<lambda>b. [hexChar (b div 16), hexChar (b mod 16)]) bs)) = 2 * length bs"
    by simp
  ultimately show ?case by simp
qed

lemma x_not_upper: "\<not> isUpperHex (CHR ''x'')" "\<not> isUpperHex (CHR ''0'')"
  by (simp_all add: isUpperHex_def)

lemma getAddress_hexlify:
  assumes "length bs = 20" "\<And>b. b \<in> set bs \<Longrightarrow> b < 256"
  shows "\<exists>r. getAddress L (hexlify bs) = Inr r"
proof -
  let ?body = "concat (map (\<lambda>b. [hexChar (b div 16), hexChar (b mod 16)]) bs)"
  from hexlify_body [OF assms(2)] assms(1)
  have b: "list_all isHexDigit ?body" "\<not> list_ex isUpperHex ?body" "length ?body = 40"
    by simp_all
  have m: "matchesHexAddress (hexlify bs)"
    using b by (simp add: matchesHexAddress_def hexlify_def)
  have h: "isHexString20 (hexlify bs)"
    using b by (simp add: isHexString20_def hexlify_def)
  have n: "\<not> hasMixedCase (hexlify bs)"
    using b by (simp add: hasMixedCase_def hexlify_def x_not_upper)
  have p: "take 2 (hexlify bs) = ''0x''"
    by (simp add: hexlify_def)
  show ?thesis
    using m h n p by (simp add: getAddress_def getChecksumAddress_def Let_def)
qed

lemma getCreate2Address_ok:
  assumes "isAddress L deployer"
  shows "\<exists>r. getCreate2Address L deployer salt h = Inr r"
proof -
  from assms obtain d where d: "getAddress L deployer = Inr d"
    by (auto simp add: isAddress_def split: sum.splits)
  let ?bs = "drop 12 (arrayify32 (keccak256 L
               ([255] @ hexToBytes (drop 2 d) @ arrayify32 salt @ arrayify32 h)))"
  have "length ?bs = 20" by (simp add: arrayify32_def length_toBytes)
  moreover have "\<And>b. b \<in> set ?bs \<Longrightarrow> b < 256"
    by (auto simp add: arrayify32_def dest!: in_set_dropD toBytes_bound)
  ultimately have "\<exists>r. getAddress L (hexlify ?bs) = Inr r"
    by (rule getAddress_hexlify)
  with d show ?thesis by (simp add: getCreate2Address_def)
qed

lemma encodeUint24_ok:
  assumes "0 \<le> f" "f < 2 ^ 24"
  shows "\<exists>bs. encodeUint24 (Some f) = Inr bs"
  using assms by (simp add: encodeUint24_def BigNumber_from_def MAX_SAFE_def)

lemma computePoolAddress_ok:
  assumes "isAddress L a" "isAddress L b" "isAddress L factoryAddress" "0 \<le> f" "f < 2 ^ 24"
  shows "\<exists>pool. computePoolAddress L (Some a) (Some b) (Some f) = Inr pool"
proof -
  from assms(1) obtain ra where ra: "getAddress L a = Inr ra"
    by (auto simp add: isAddress_def split: sum.splits)
  from assms(2) obtain rb where rb: "getAddress L b = Inr rb"
    by (auto simp add: isAddress_def split: sum.splits)
  from encodeUint24_ok [OF assms(4,5)] obtain bs where bs: "encodeUint24 (Some f) = Inr bs" ..
  have e1: "\<exists>enc. abiEncode L a b (Some f) = Inr enc"
    by (simp add: abiEncode_def encodeAddress_def ra rb bs)
  have e2: "\<exists>enc. abiEncode L b a (Some f) = Inr enc"
    by (simp add: abiEncode_def encodeAddress_def ra rb bs)
  show ?thesis
  proof (cases "toLowerCase a < toLowerCase b")
    case True
    from e1 obtain enc where "abiEncode L a b (Some f) = Inr enc" ..
    with True getCreate2Address_ok [OF assms(3), of "keccak256 L enc" POOL_INIT_CODE_HASH]
    show ?thesis by (simp add: computePoolAddress_def)
  next
    case False
    from e2 obtain enc where "abiEncode L b a (Some f) = Inr enc" ..
    with False getCreate2Address_ok [OF assms(3), of "keccak256 L enc" POOL_INIT_CODE_HASH]
    show ?thesis by (simp add: computePoolAddress_def)
  qed
qed

text \<open>
  Claim C2.  For two well-formed 20-byte hexadecimal token addresses (40 hexadecimal
  digits, with or without the prefix \<open>0x\<close>) and any fee, \<open>computePoolAddress\<close> returns
  the same result whichever address is passed first, for every hash function.  When
  both addresses and the factory address pass the checksum test and the fee fits
  \<open>uint24\<close>, that result is a pool address.
\<close>

theorem computePoolAddress_order_independent:
  assumes "matchesHexAddress tokenA" "matchesHexAddress tokenB"
  shows "computePoolAddress L (Some tokenA) (Some tokenB) feeTier
           = computePoolAddress L (Some tokenB) (Some tokenA) feeTier
       \<and> (isAddress L tokenA \<and> isAddress L tokenB \<and> isAddress L factoryAddress
            \<and> 0 \<le> f \<and> f < 2 ^ 24 \<longrightarrow>
            (\<exists>pool. computePoolAddress L (Some tokenA) (Some tokenB) (Some f) = Inr pool
                  \<and> computePoolAddress L (Some tokenB) (Some tokenA) (Some f) = Inr pool))"
proof -
  have swap: "\<And>ft. computePoolAddress L (Some tokenA) (Some tokenB) ft
           = computePoolAddress L (Some tokenB) (Some tokenA) ft"
    by (rule computePoolAddress_swap_hex [OF assms])
  have "isAddress L tokenA \<and> isAddress L tokenB \<and> isAddress L factoryAddress \<and> 0 \<le> f \<and> f < 2 ^ 24 \<Longrightarrow>
      \<exists>pool. computePoolAddress L (Some tokenA) (Some tokenB) (Some f) = Inr pool"
    using computePoolAddress_ok [of L tokenA tokenB f] by blast
  with swap show ?thesis by metis
qed

lemma mock_hexlify:
  "hexlify (drop 12 [8,0,0,0,0,128,0,0,0,8,128,0,0,0,0,0,0,0,128,0,0,0,0,0,0,0,0,0,0,0,0,0])
     = ''0x0000000000008000000000000000000000000000''"
  by (simp add: hexlify_def hexChar_def)

lemma ex_pool:
  "matchesHexAddress ''0x0000000000008000000000000000000000000000''"
  "isHexString20 ''0x0000000000008000000000000000000000000000''"
  "hasMixedCase ''0x0000000000008000000000000000000000000000'' = False"
  "toLowerCase ''0x0000000000008000000000000000000000000000'' = ''0x0000000000008000000000000000000000000000''"
  by code_simp+

lemma mock_create2:
  "getCreate2Address mockCrypto factoryAddress salt h = Inr ''0x0000000000008000000000000000000000000000''"
proof -
  have h: "\<And>bs. hexlify (drop 12 (arrayify32 (keccak256 mockCrypto bs)))
      = ''0x0000000000008000000000000000000000000000''"
    by (simp only: mock_hash mock_hexlify)
  have g: "getAddress mockCrypto ''0x0000000000008000000000000000000000000000''
      = Inr ''0x0000000000008000000000000000000000000000''"
    by (simp add: getAddress_def ex_pool getChecksumAddress_def Let_def mock_hash toUpperChar_hex)
  show ?thesis
    by (simp only: getCreate2Address_def ex_factory sum.case h g)
qed

theorem computePoolAddress_order_independent_witness:
  "matchesHexAddress ''0xdac17f958d2ee523a2206206994597c13d831ec7''
   \<and> matchesHexAddress ''0x6B175474E89094C44DA98B954EEDEAC495271D0F''
   \<and> isAddress mockCrypto ''0xdac17f958d2ee523a2206206994597c13d831ec7''
   \<and> isAddress mockCrypto ''0x6B175474E89094C44DA98B954EEDEAC495271D0F''
   \<and> isAddress mockCrypto factoryAddress
   \<and> computePoolAddress mockCrypto (Some ''0xdac17f958d2ee523a2206206994597c13d831ec7'')
         (Some ''0x6B175474E89094C44DA98B954EEDEAC495271D0F'') (Some 3000)
       = Inr ''0x0000000000008000000000000000000000000000''
   \<and> computePoolAddress mockCrypto (Some ''0x6B175474E89094C44DA98B954EEDEAC495271D0F'')
         (Some ''0xdac17f958d2ee523a2206206994597c13d831ec7'') (Some 3000)
       = Inr ''0x0000000000008000000000000000000000000000''"
proof -
  let ?usdt = "''0xdac17f958d2ee523a2206206994597c13d831ec7''"
  let ?dai = "''0x6B175474E89094C44DA98B954EEDEAC495271D0F''"
  have m: "matchesHexAddress ?usdt" "matchesHexAddress ?dai"
    by (simp_all add: ex_tokens)
  have a: "isAddress mockCrypto ?usdt" "isAddress mockCrypto ?dai" "isAddress mockCrypto factoryAddress"
    by (simp_all add: isAddress_def ex_usdt ex_dai ex_factory)
  have fee: "(0::int) \<le> 3000 \<and> (3000::int) < 2 ^ 24" by simp
  from computePoolAddress_order_independent [OF m, where L = mockCrypto and feeTier = "Some 3000" and f = 3000]
    a fee
  obtain pool where swap: "computePoolAddress mockCrypto (Some ?usdt) (Some ?dai) (Some 3000)
           = computePoolAddress mockCrypto (Some ?dai) (Some ?usdt) (Some 3000)"
    and pool: "computePoolAddress mockCrypto (Some ?usdt) (Some ?dai) (Some 3000) = Inr pool"
    by blast
  from pool have "pool = ''0x0000000000008000000000000000000000000000''"
    by (simp add: computePoolAddress_def mock_create2 split: sum.splits if_splits)
  with m a swap pool show ?thesis by simp
qed

section \<open>Verified properties of the risk metrics\<close>

lemma riskMetricsOf_fields:
  "totalDebt (riskMetricsOf ps) = fst (snd (sumPositions ps (Num 0, Num 0, Num 0)))"
  "collateralizationRatio (riskMetricsOf ps) =
     (if js_less (Num 0) (fst (snd (sumPositions ps (Num 0, Num 0, Num 0))))
      then js_div (fst (sumPositions ps (Num 0, Num 0, Num 0)))
                  (fst (snd (sumPositions ps (Num 0, Num 0, Num 0))))
      else PosInfinity)"
  by (simp_all add: riskMetricsOf_def Let_def split: prod.splits)

text \<open>
  Claim C9.  For every list of lending positions whose total debt is 0, the risk
  metrics are returned with \<open>collateralizationRatio = Infinity\<close>; the function has no
  error result.  \<open>calculateRiskMetrics\<close> itself, with the placeholder fetcher, always has
  total debt 0 and the ratio \<open>Infinity\<close>.
\<close>

theorem zero_debt_ratio_infinite:
  "(totalDebt (riskMetricsOf positions) = Num 0 \<longrightarrow>
      collateralizationRatio (riskMetricsOf positions) = PosInfinity)
   \<and> totalDebt (calculateRiskMetrics account) = Num 0
   \<and> collateralizationRatio (calculateRiskMetrics account) = PosInfinity"
proof -
  have "totalDebt (riskMetricsOf positions) = Num 0 \<Longrightarrow>
      collateralizationRatio (riskMetricsOf positions) = PosInfinity"
    by (simp add: riskMetricsOf_fields)
  moreover have "calculateRiskMetrics account = riskMetricsOf []"
    by (simp add: calculateRiskMetrics_def getLendingPositions_def getAavePositions_def)
  ultimately show ?thesis
    by (simp add: riskMetricsOf_fields)
qed

theorem zero_debt_ratio_infinite_witness:
  "totalDebt (riskMetricsOf [\<lparr>pos_type = ''collateral'', pos_value = Num 1000,
       pos_liquidationThreshold = Num (4 / 5)\<rparr>]) = Num 0
   \<and> riskMetricsOf [\<lparr>pos_type = ''collateral'', pos_value = Num 1000,
       pos_liquidationThreshold = Num (4 / 5)\<rparr>]
     = \<lparr>healthFactor = PosInfinity, collateralizationRatio = PosInfinity,
        liquidationRisk = ''Low'', totalCollateral = Num 1000, totalDebt = Num 0\<rparr>"
proof -
  let ?ps = "[\<lparr>pos_type = ''collateral'', pos_value = Num 1000, pos_liquidationThreshold = Num (4 / 5)\<rparr>]"
  have d: "totalDebt (riskMetricsOf ?ps) = Num 0"
    by (simp add: riskMetricsOf_fields)
  from zero_debt_ratio_infinite [of ?ps] d
  have r: "collateralizationRatio (riskMetricsOf ?ps) = PosInfinity" by blast
  have "riskMetricsOf ?ps
     = \<lparr>healthFactor = PosInfinity, collateralizationRatio = collateralizationRatio (riskMetricsOf ?ps),
        liquidationRisk = ''Low'', totalCollateral = Num 1000, totalDebt = Num 0\<rparr>"
    by (simp add: riskMetricsOf_def Let_def js_infinity_def js_sign_def)
  with d r show ?thesis by simp
qed

section \<open>Verified properties of the liquidity APY\<close>

text \<open>
  Claim C4 on the code.  \<open>calculateLiquidityAPY\<close> throws a \<open>TypeError\<close> for every
  pool address, tick bounds and chain state: \<open>getPoolInfo(poolAddress)\<close> passes
  \<open>undefined\<close> as the second token, and \<open>computePoolAddress\<close> calls \<open>toLowerCase\<close> on it.
  The result the claim describes is never returned.
\<close>

theorem calculateLiquidityAPY_throws:
  "calculateLiquidityAPY L rpc poolAddress positionTickLower positionTickUpper = Inl TypeError"
  by (simp add: calculateLiquidityAPY_def getPoolInfo_def computePoolAddress_def)

end
